theory Spec2Isabelle
  imports Complex_Main "HOL-Library.Multiset"
begin

section \<open>The graphics context used by configTexture.js\<close>

text \<open>
  The two functions of \<^verbatim>\<open>configTexture.js\<close> do nothing but call the WebGL context
  \<^verbatim>\<open>gl\<close>. The context is modelled as a record that is passed through every call:
  the active texture unit, the texture bound to each target of each unit, the texture
  objects, the program in use, the integer uniforms, the error flag read by
  \<^verbatim>\<open>gl.getError\<close>, and the list of calls made so far, in order. With it go the two
  size limits of the context and the pixel data that the page holds for each image,
  which an upload reads.

  The constants \<^verbatim>\<open>gl.XXX\<close> that the source passes are the constructors of one type,
  as the API takes them all as \<^verbatim>\<open>GLenum\<close>; the other filter and wrap values of the
  API are listed too, so that a wrong constant is a branch of the model.

  Each call follows the WebGL 2 specification as far as bindings, texture parameters,
  uniforms, the images a texture accepts and the error flag go. Of the pixels of an
  image only their number counts, its width and height. Where several errors apply to
  one call the specification leaves open which is reported; the checks are made here in
  the order of the definitions. A lost context, in which nothing can be created, and
  images of another origin, which an upload refuses by an exception, are not modelled:
  the images of this repository are files beside the page.
\<close>

datatype glenum =
    TEXTURE0 | TEXTURE1 | TEXTURE2
  | TEXTURE_2D | TEXTURE_CUBE_MAP
  | TEXTURE_CUBE_MAP_POSITIVE_X | TEXTURE_CUBE_MAP_NEGATIVE_X
  | TEXTURE_CUBE_MAP_POSITIVE_Y | TEXTURE_CUBE_MAP_NEGATIVE_Y
  | TEXTURE_CUBE_MAP_POSITIVE_Z | TEXTURE_CUBE_MAP_NEGATIVE_Z
  | TEXTURE_MAG_FILTER | TEXTURE_MIN_FILTER | TEXTURE_WRAP_S | TEXTURE_WRAP_T
  | NEAREST | LINEAR
  | NEAREST_MIPMAP_NEAREST | LINEAR_MIPMAP_NEAREST
  | NEAREST_MIPMAP_LINEAR | LINEAR_MIPMAP_LINEAR
  | REPEAT | CLAMP_TO_EDGE | MIRRORED_REPEAT
  | RGB | RGBA | UNSIGNED_BYTE

datatype gl_error = INVALID_ENUM | INVALID_VALUE | INVALID_OPERATION

text \<open>
  An image element is known by the path it was asked to load; what it holds once it
  has loaded is kept in the state, by image.
\<close>

datatype image = Image (src: string)

type_synonym texture_name = nat
type_synonym program = nat
type_synonym location = "program \<times> string"

datatype gl_call =
    ActiveTexture glenum
  | CreateTexture texture_name
  | BindTexture glenum "texture_name option"
  | TexParameteri glenum glenum glenum
  | GetUniformLocation program string
  | Uniform1i "location option" int
  | TexImage2D glenum nat glenum glenum glenum image
  | GenerateMipmap glenum

text \<open>
  A texture object: the target it was first bound to, its sampling parameters with the
  defaults of the API, the images uploaded to it (by image target and level, with the
  internal format and the width and height), and whether its mipmap chain has been
  generated.
\<close>

record texture =
  tex_target :: "glenum option"
  min_filter :: glenum
  mag_filter :: glenum
  wrap_s :: glenum
  wrap_t :: glenum
  tex_images :: "glenum \<times> nat \<Rightarrow> (glenum \<times> image \<times> nat \<times> nat) option"
  mipmaps :: bool

definition new_texture :: texture where
  "new_texture = \<lparr>tex_target = None, min_filter = NEAREST_MIPMAP_LINEAR, mag_filter = LINEAR,
     wrap_s = REPEAT, wrap_t = REPEAT, tex_images = (\<lambda>_. None), mipmaps = False\<rparr>"

record gl_state =
  active_unit :: nat
  bindings :: "nat \<times> glenum \<Rightarrow> texture_name option"
  textures :: "texture_name \<Rightarrow> texture option"
  next_texture :: texture_name
  current_program :: "program option"
  uniforms :: "location \<Rightarrow> int option"
  error_flag :: "gl_error option"
  calls :: "gl_call list"
  max_texture_size :: nat
  max_cube_map_texture_size :: nat
  image_data :: "image \<Rightarrow> (nat \<times> nat) option"

text \<open>The error flag keeps the first error until it is read; a call is appended to the log.\<close>

definition record_error :: "gl_error \<Rightarrow> gl_state \<Rightarrow> gl_state" where
  "record_error e s = (if error_flag s = None then s\<lparr>error_flag := Some e\<rparr> else s)"

definition log_call :: "gl_call \<Rightarrow> gl_state \<Rightarrow> gl_state" where
  "log_call c s = s\<lparr>calls := calls s @ [c]\<rparr>"

definition unit_of :: "glenum \<Rightarrow> nat option" where
  "unit_of e = (if e = TEXTURE0 then Some 0 else if e = TEXTURE1 then Some 1
                else if e = TEXTURE2 then Some 2 else None)"

definition cube_faces :: "glenum list" where
  "cube_faces = [TEXTURE_CUBE_MAP_POSITIVE_X, TEXTURE_CUBE_MAP_NEGATIVE_X,
                 TEXTURE_CUBE_MAP_POSITIVE_Y, TEXTURE_CUBE_MAP_NEGATIVE_Y,
                 TEXTURE_CUBE_MAP_POSITIVE_Z, TEXTURE_CUBE_MAP_NEGATIVE_Z]"

text \<open>The binding target an image target belongs to.\<close>

definition binding_target :: "glenum \<Rightarrow> glenum option" where
  "binding_target e = (if e = TEXTURE_2D then Some TEXTURE_2D
                       else if e \<in> set cube_faces then Some TEXTURE_CUBE_MAP else None)"

definition min_filters :: "glenum list" where
  "min_filters = [NEAREST, LINEAR, NEAREST_MIPMAP_NEAREST, LINEAR_MIPMAP_NEAREST,
                  NEAREST_MIPMAP_LINEAR, LINEAR_MIPMAP_LINEAR]"

definition mag_filters :: "glenum list" where
  "mag_filters = [NEAREST, LINEAR]"

definition wrap_modes :: "glenum list" where
  "wrap_modes = [REPEAT, CLAMP_TO_EDGE, MIRRORED_REPEAT]"

definition update_texture :: "texture_name \<Rightarrow> (texture \<Rightarrow> texture) \<Rightarrow> gl_state \<Rightarrow> gl_state" where
  "update_texture t f s =
     (case textures s t of
        None \<Rightarrow> record_error INVALID_OPERATION s
      | Some tx \<Rightarrow> s\<lparr>textures := (textures s)(t \<mapsto> f tx)\<rparr>)"

subsection \<open>The calls of the API that the source makes\<close>

definition activeTexture :: "glenum \<Rightarrow> gl_state \<Rightarrow> gl_state" where
  "activeTexture e s =
     log_call (ActiveTexture e)
       (case unit_of e of
          None \<Rightarrow> record_error INVALID_ENUM s
        | Some u \<Rightarrow> s\<lparr>active_unit := u\<rparr>)"

definition createTexture :: "gl_state \<Rightarrow> texture_name \<times> gl_state" where
  "createTexture s =
     (let t = next_texture s
      in (t, log_call (CreateTexture t)
               (s\<lparr>textures := (textures s)(t \<mapsto> new_texture), next_texture := Suc t\<rparr>)))"

text \<open>
  Binding null clears the binding of the target in the active unit. A texture keeps the
  target of its first binding and cannot be bound to the other one.
\<close>

definition bindTexture :: "glenum \<Rightarrow> texture_name option \<Rightarrow> gl_state \<Rightarrow> gl_state" where
  "bindTexture target tex s =
     log_call (BindTexture target tex)
       (if target \<noteq> TEXTURE_2D \<and> target \<noteq> TEXTURE_CUBE_MAP then record_error INVALID_ENUM s
        else case tex of
          None \<Rightarrow> s\<lparr>bindings := (bindings s)((active_unit s, target) := None)\<rparr>
        | Some t \<Rightarrow>
            (case textures s t of
               None \<Rightarrow> record_error INVALID_OPERATION s
             | Some tx \<Rightarrow>
                 if tex_target tx = None \<or> tex_target tx = Some target
                 then s\<lparr>bindings := (bindings s)((active_unit s, target) \<mapsto> t),
                        textures := (textures s)(t \<mapsto> tx\<lparr>tex_target := Some target\<rparr>)\<rparr>
                 else record_error INVALID_OPERATION s))"

text \<open>A parameter is set on the texture bound to the target in the active unit.\<close>

definition set_parameter :: "glenum \<Rightarrow> glenum \<Rightarrow> texture \<Rightarrow> texture" where
  "set_parameter pname param tx =
     (if pname = TEXTURE_MIN_FILTER then tx\<lparr>min_filter := param\<rparr>
      else if pname = TEXTURE_MAG_FILTER then tx\<lparr>mag_filter := param\<rparr>
      else if pname = TEXTURE_WRAP_S then tx\<lparr>wrap_s := param\<rparr>
      else tx\<lparr>wrap_t := param\<rparr>)"

definition parameter_ok :: "glenum \<Rightarrow> glenum \<Rightarrow> bool" where
  "parameter_ok pname param =
     (if pname = TEXTURE_MIN_FILTER then param \<in> set min_filters
      else if pname = TEXTURE_MAG_FILTER then param \<in> set mag_filters
      else if pname = TEXTURE_WRAP_S \<or> pname = TEXTURE_WRAP_T then param \<in> set wrap_modes
      else False)"

definition texParameteri :: "glenum \<Rightarrow> glenum \<Rightarrow> glenum \<Rightarrow> gl_state \<Rightarrow> gl_state" where
  "texParameteri target pname param s =
     log_call (TexParameteri target pname param)
       (if target \<noteq> TEXTURE_2D \<and> target \<noteq> TEXTURE_CUBE_MAP then record_error INVALID_ENUM s
        else if \<not> parameter_ok pname param then record_error INVALID_ENUM s
        else case bindings s (active_unit s, target) of
          None \<Rightarrow> record_error INVALID_OPERATION s
        | Some t \<Rightarrow> update_texture t (set_parameter pname param) s)"

text \<open>
  An upload takes the pixels that the image holds. It is refused with
  \<^verbatim>\<open>INVALID_VALUE\<close> when the image holds none (it has not loaded, or loading failed),
  when it is larger than the limit of the context for the target and level, and when it
  is meant for a face of a cubemap and is not square.
\<close>

definition size_ok :: "glenum \<Rightarrow> nat \<Rightarrow> nat \<times> nat \<Rightarrow> gl_state \<Rightarrow> bool" where
  "size_ok target level d s =
     (0 < fst d \<and> 0 < snd d \<and>
      (if target = TEXTURE_2D
       then fst d * 2 ^ level \<le> max_texture_size s \<and> snd d * 2 ^ level \<le> max_texture_size s
       else fst d = snd d \<and> fst d * 2 ^ level \<le> max_cube_map_texture_size s))"

definition accepted_size :: "glenum \<Rightarrow> nat \<Rightarrow> image \<Rightarrow> gl_state \<Rightarrow> (nat \<times> nat) option" where
  "accepted_size target level img s =
     (case image_data s img of
        None \<Rightarrow> None
      | Some d \<Rightarrow> if size_ok target level d s then Some d else None)"

text \<open>
  An image is uploaded to the texture that is bound, in the active unit, to the binding
  target of the image target; with no texture bound there the call only sets the error
  flag, and so it does when the image is refused. The source uploads unsigned bytes
  with equal format and internal format.
\<close>

definition texImage2D ::
  "glenum \<Rightarrow> nat \<Rightarrow> glenum \<Rightarrow> glenum \<Rightarrow> glenum \<Rightarrow> image \<Rightarrow> gl_state \<Rightarrow> gl_state" where
  "texImage2D target level internalformat format type img s =
     log_call (TexImage2D target level internalformat format type img)
       (case binding_target target of
          None \<Rightarrow> record_error INVALID_ENUM s
        | Some bt \<Rightarrow>
            if (format \<noteq> RGB \<and> format \<noteq> RGBA) \<or> type \<noteq> UNSIGNED_BYTE
            then record_error INVALID_ENUM s
            else if internalformat \<noteq> format then record_error INVALID_OPERATION s
            else case bindings s (active_unit s, bt) of
              None \<Rightarrow> record_error INVALID_OPERATION s
            | Some t \<Rightarrow>
                (case textures s t of
                   None \<Rightarrow> record_error INVALID_OPERATION s
                 | Some tx \<Rightarrow>
                     (case accepted_size target level img s of
                        None \<Rightarrow> record_error INVALID_VALUE s
                      | Some d \<Rightarrow>
                          s\<lparr>textures := (textures s)(t \<mapsto>
                               tx\<lparr>tex_images :=
                                    (tex_images tx)((target, level) \<mapsto>
                                       (internalformat, img, d))\<rparr>)\<rparr>)))"

text \<open>
  Mipmaps are generated for the bound texture from its level 0, which must be there:
  the one image of a 2D texture, or all six faces of a cubemap in one size. Without it
  the call is refused with \<^verbatim>\<open>INVALID_OPERATION\<close>.
\<close>

definition face_size :: "texture \<Rightarrow> glenum \<Rightarrow> (nat \<times> nat) option" where
  "face_size tx f = map_option (\<lambda>(ifmt, img, d). d) (tex_images tx (f, 0))"

definition base_level_defined :: "glenum \<Rightarrow> texture \<Rightarrow> bool" where
  "base_level_defined target tx =
     (if target = TEXTURE_2D then tex_images tx (TEXTURE_2D, 0) \<noteq> None
      else face_size tx TEXTURE_CUBE_MAP_POSITIVE_X \<noteq> None \<and>
           list_all (\<lambda>f. face_size tx f = face_size tx TEXTURE_CUBE_MAP_POSITIVE_X) cube_faces)"

definition generateMipmap :: "glenum \<Rightarrow> gl_state \<Rightarrow> gl_state" where
  "generateMipmap target s =
     log_call (GenerateMipmap target)
       (if target \<noteq> TEXTURE_2D \<and> target \<noteq> TEXTURE_CUBE_MAP then record_error INVALID_ENUM s
        else case bindings s (active_unit s, target) of
          None \<Rightarrow> record_error INVALID_OPERATION s
        | Some t \<Rightarrow>
            (case textures s t of
               None \<Rightarrow> record_error INVALID_OPERATION s
             | Some tx \<Rightarrow>
                 if base_level_defined target tx
                 then s\<lparr>textures := (textures s)(t \<mapsto> tx\<lparr>mipmaps := True\<rparr>)\<rparr>
                 else record_error INVALID_OPERATION s))"

text \<open>
  A uniform location is null when the program has no such uniform. Setting a null
  location is ignored; setting a location of a program that is not in use is an error.
\<close>

definition getUniformLocation :: "program \<Rightarrow> string \<Rightarrow> gl_state \<Rightarrow> location option \<times> gl_state" where
  "getUniformLocation p name s =
     (if uniforms s (p, name) = None then None else Some (p, name),
      log_call (GetUniformLocation p name) s)"

definition uniform1i :: "location option \<Rightarrow> int \<Rightarrow> gl_state \<Rightarrow> gl_state" where
  "uniform1i loc v s =
     log_call (Uniform1i loc v)
       (case loc of
          None \<Rightarrow> s
        | Some l \<Rightarrow>
            if current_program s = Some (fst l) then s\<lparr>uniforms := (uniforms s)(l \<mapsto> v)\<rparr>
            else record_error INVALID_OPERATION s)"

section \<open>configTexture.js\<close>

subsection \<open>configureCubeMap\<close>

text \<open>
  The table \<^verbatim>\<open>faces\<close> of the source: the path of each image and the face it is for.
\<close>

definition faces :: "(string \<times> glenum) list" where
  "faces = [(''./skybox/right.jpg'', TEXTURE_CUBE_MAP_POSITIVE_X),
            (''./skybox/left.jpg'', TEXTURE_CUBE_MAP_NEGATIVE_X),
            (''./skybox/top.jpg'', TEXTURE_CUBE_MAP_POSITIVE_Y),
            (''./skybox/bottom.jpg'', TEXTURE_CUBE_MAP_NEGATIVE_Y),
            (''./skybox/front.jpg'', TEXTURE_CUBE_MAP_POSITIVE_Z),
            (''./skybox/back.jpg'', TEXTURE_CUBE_MAP_NEGATIVE_Z)]"

text \<open>
  The function that the source stores in \<^verbatim>\<open>image.onload\<close> is a closure over the
  three arguments of the enclosing function, taken at that turn of the loop. Its body is
  the one upload; it does not use the captured \<^verbatim>\<open>cubeMap\<close>.
\<close>

record onload_closure =
  cl_cubeMap :: texture_name
  cl_face :: glenum
  cl_image :: image

definition onload_body :: "onload_closure \<Rightarrow> gl_state \<Rightarrow> gl_state" where
  "onload_body c s = texImage2D (cl_face c) 0 RGB RGB UNSIGNED_BYTE (cl_image c) s"

text \<open>
  An image element as the loop leaves it: the path assigned to \<^verbatim>\<open>src\<close>, the handler
  assigned to \<^verbatim>\<open>onload\<close>, and the handler \<^verbatim>\<open>onerror\<close>, which a new element has as
  null and the source never assigns.
\<close>

record image_element =
  elem_image :: image
  onload :: "onload_closure option"
  onerror :: "onload_closure option"

definition new_Image :: image_element where
  "new_Image = \<lparr>elem_image = Image [], onload = None, onerror = None\<rparr>"

text \<open>One turn of the loop body, for index \<open>i\<close>.\<close>

definition load_face :: "texture_name \<Rightarrow> nat \<Rightarrow> image_element" where
  "load_face cubeMap i =
     (let face = snd (faces ! i);
          image0 = new_Image;
          image1 = image0\<lparr>elem_image := Image (fst (faces ! i))\<rparr>
      in image1\<lparr>onload := Some \<lparr>cl_cubeMap = cubeMap, cl_face = face,
                                 cl_image = elem_image image1\<rparr>\<rparr>)"

function face_loop :: "texture_name \<Rightarrow> nat \<Rightarrow> image_element list \<Rightarrow> image_element list" where
  "face_loop cubeMap i started =
     (if i < 6 then face_loop cubeMap (Suc i) (started @ [load_face cubeMap i]) else started)"
  by pat_completeness auto
termination
  by (relation "measure (\<lambda>(cubeMap, i, started). 6 - i)") auto

declare face_loop.simps [simp del]

text \<open>
  The function returns what it leaves behind: the texture assigned to the global
  \<^verbatim>\<open>cubeMap\<close>, the image elements whose loading it started, and the context.
\<close>

definition configureCubeMap ::
  "program \<Rightarrow> gl_state \<Rightarrow> texture_name \<times> image_element list \<times> gl_state" where
  "configureCubeMap prog s0 =
     (let s1 = activeTexture TEXTURE0 s0;
          (cubeMap, s2) = createTexture s1;
          s3 = bindTexture TEXTURE_CUBE_MAP (Some cubeMap) s2;
          s4 = texParameteri TEXTURE_CUBE_MAP TEXTURE_MAG_FILTER LINEAR s3;
          s5 = texParameteri TEXTURE_CUBE_MAP TEXTURE_MIN_FILTER LINEAR s4;
          (loc, s6) = getUniformLocation prog ''cubeSampler'' s5;
          s7 = uniform1i loc 0 s6
      in (cubeMap, face_loop cubeMap 0 [], s7))"

subsection \<open>configureTexture\<close>

definition configureTexture :: "image \<Rightarrow> gl_state \<Rightarrow> texture_name \<times> gl_state" where
  "configureTexture img s0 =
     (let (texture, s1) = createTexture s0;
          s2 = bindTexture TEXTURE_2D (Some texture) s1;
          s3 = texImage2D TEXTURE_2D 0 RGBA RGBA UNSIGNED_BYTE img s2;
          s4 = texParameteri TEXTURE_2D TEXTURE_MIN_FILTER LINEAR_MIPMAP_LINEAR s3;
          s5 = texParameteri TEXTURE_2D TEXTURE_MAG_FILTER LINEAR s4;
          s6 = texParameteri TEXTURE_2D TEXTURE_WRAP_S REPEAT s5;
          s7 = texParameteri TEXTURE_2D TEXTURE_WRAP_T REPEAT s6;
          s8 = generateMipmap TEXTURE_2D s7;
          s9 = bindTexture TEXTURE_2D None s8
      in (texture, s9))"

subsection \<open>Image loading\<close>

text \<open>
  Loading is done by the browser, after the function has returned, as the HTML standard
  has it: when an image has been decoded the element holds its pixels and gets a load
  event, and when the file is missing or cannot be decoded it holds none and gets an
  error event; either event calls the handler stored in the matching property of the
  element, and a property that is null calls nothing. The handlers run one at a time,
  on the thread of the script. The closure of the source holds the element itself, so
  its upload reads the pixels that the element holds when the handler runs.
\<close>

datatype load_result = Loaded "nat \<times> nat" | Failed

definition fire :: "onload_closure option \<Rightarrow> gl_state \<Rightarrow> gl_state" where
  "fire handler s = (case handler of None \<Rightarrow> s | Some c \<Rightarrow> onload_body c s)"

definition load_event :: "nat \<times> nat \<Rightarrow> image_element \<Rightarrow> gl_state \<Rightarrow> gl_state" where
  "load_event d e s = fire (onload e) (s\<lparr>image_data := (image_data s)(elem_image e \<mapsto> d)\<rparr>)"

definition error_event :: "image_element \<Rightarrow> gl_state \<Rightarrow> gl_state" where
  "error_event e s = fire (onerror e) s"

definition finish_loading :: "load_result \<Rightarrow> image_element \<Rightarrow> gl_state \<Rightarrow> gl_state" where
  "finish_loading r e s = (case r of Loaded d \<Rightarrow> load_event d e s | Failed \<Rightarrow> error_event e s)"

subsection \<open>The operations of the file as steps\<close>

text \<open>
  After start-up the context is changed, as far as this file goes, by the load events of
  image elements and by further calls of the two functions, in any order.
\<close>

datatype step =
    LoadEvent "nat \<times> nat" image_element
  | ConfigureTexture image
  | ConfigureCubeMap program

fun run_step :: "step \<Rightarrow> gl_state \<Rightarrow> gl_state" where
  "run_step (LoadEvent d e) s = load_event d e s"
| "run_step (ConfigureTexture img) s = snd (configureTexture img s)"
| "run_step (ConfigureCubeMap prog) s = snd (snd (configureCubeMap prog s))"

section \<open>The parts of the renderer outside configTexture.js\<close>

subsection \<open>The input controller\<close>

text \<open>
  Modelled from the spec: the type of the light of the main script, which is not among
  the sources (section 3): the last component of the light position flags a point light
  by 1 and a directional light by 0.
\<close>

datatype light_type = PointLight | DirectionalLight

text \<open>
  Modelled from the spec: the mutable parameters of the scene, held by the main script
  (sections 3 and 4.6): the spherical coordinates of the light and its type, the
  spherical coordinates of the camera and the field of view.
\<close>

record parameters =
  lightRadius :: real
  lightTheta :: real
  lightPhi :: real
  lightType :: light_type
  eyeRadius :: real
  eyeTheta :: real
  eyePhi :: real
  eyeFov :: real

text \<open>
  Modelled from the spec: the configuration of the input controller, which the main
  script fixes and the spec does not give in numbers: the initial value of every
  parameter and the amount by which one key press changes a radius, an angle or the
  field of view.
\<close>

record controller =
  initial :: parameters
  radius_step :: real
  angle_step :: real
  fov_step :: real

text \<open>
  Modelled from the spec: the two directions of the key pairs of the main script
  (section 6: increase and decrease).
\<close>

datatype direction = Increase | Decrease

text \<open>
  Modelled from the spec: the two angles of a spherical coordinate triple (section 3),
  which are the two axes the light is rotated around.
\<close>

datatype angle = Theta | Phi

text \<open>
  Modelled from the spec: the three spherical coordinates (section 3: radius, theta,
  phi).
\<close>

datatype coordinate = Radius | Angle angle

text \<open>
  Modelled from the spec: the named actions that the main script maps key presses to
  (section 6): toggle the light type, increase or decrease the light radius, rotate the
  light around two axes, move the camera, adjust the field of view, reset to defaults.
\<close>

datatype action =
    ToggleLightType
  | LightRadius direction
  | RotateLight angle direction
  | MoveCamera coordinate direction
  | AdjustFov direction
  | Reset

text \<open>
  Modelled from the spec: the amount that one key press of the main script adds, by its
  direction.
\<close>

definition signed :: "direction \<Rightarrow> real \<Rightarrow> real" where
  "signed d x = (case d of Increase \<Rightarrow> x | Decrease \<Rightarrow> - x)"

text \<open>
  Modelled from the spec: the reset command of the main script, which restores all
  mutable state to the initial configuration values (section 4.6).
\<close>

definition initParameters :: "controller \<Rightarrow> parameters" where
  "initParameters c = initial c"

text \<open>
  Modelled from the spec: the key handler of the main script (section 4.6): each action
  mutates the spherical coordinates of the light or of the camera, the light type or the
  field of view; toggling the light type changes nothing else.
\<close>

fun handle_action :: "controller \<Rightarrow> action \<Rightarrow> parameters \<Rightarrow> parameters" where
  "handle_action c ToggleLightType p =
     p\<lparr>lightType := (case lightType p of PointLight \<Rightarrow> DirectionalLight
                                        | DirectionalLight \<Rightarrow> PointLight)\<rparr>"
| "handle_action c (LightRadius d) p = p\<lparr>lightRadius := lightRadius p + signed d (radius_step c)\<rparr>"
| "handle_action c (RotateLight Theta d) p = p\<lparr>lightTheta := lightTheta p + signed d (angle_step c)\<rparr>"
| "handle_action c (RotateLight Phi d) p = p\<lparr>lightPhi := lightPhi p + signed d (angle_step c)\<rparr>"
| "handle_action c (MoveCamera Radius d) p = p\<lparr>eyeRadius := eyeRadius p + signed d (radius_step c)\<rparr>"
| "handle_action c (MoveCamera (Angle Theta) d) p = p\<lparr>eyeTheta := eyeTheta p + signed d (angle_step c)\<rparr>"
| "handle_action c (MoveCamera (Angle Phi) d) p = p\<lparr>eyePhi := eyePhi p + signed d (angle_step c)\<rparr>"
| "handle_action c (AdjustFov d) p = p\<lparr>eyeFov := eyeFov p + signed d (fov_step c)\<rparr>"
| "handle_action c Reset p = initParameters c"

text \<open>
  Modelled from the spec: the states that the parameters of the main script can reach:
  from the initial configuration, by any key presses.
\<close>

definition reached :: "controller \<Rightarrow> action list \<Rightarrow> parameters" where
  "reached c keys = fold (handle_action c) keys (initParameters c)"

subsection \<open>The two passes of a frame\<close>

text \<open>
  Modelled from the spec: the two viewports that the frame callback of the main script,
  which is not among the sources, switches between (section 4.3): the 1024x1024 depth
  target and the square render region of the window.
\<close>

datatype viewport = DepthTarget | Window

text \<open>
  Modelled from the spec: the state that the frame callback of the main script works
  on: the parameters, the global \<^verbatim>\<open>lightSpaceMatrix\<close>, the viewport and the depth
  attachment. Matrices and depth images are values of types \<open>'m\<close> and \<open>'d\<close>, of which
  only equality is used: two matrices are equal when they are the same value.
\<close>

record ('m, 'd) renderer =
  scene :: parameters
  lightSpaceMatrix :: 'm
  view_port :: viewport
  depthAttachment :: 'd

text \<open>
  Modelled from the spec: what the graphics hardware and the matrix library compute
  for the main script, which is given to the passes: the light-space matrix of a light (view and projection
  composed), the depth image drawn with a matrix, and the colour image drawn from the
  parameters, a matrix and a depth image.
\<close>

record ('m, 'd, 'c) pipeline =
  light_space :: "parameters \<Rightarrow> 'm"
  draw_depth :: "'m \<Rightarrow> 'd"
  draw_colour :: "parameters \<Rightarrow> 'm \<Rightarrow> 'd \<Rightarrow> 'c"

text \<open>
  Modelled from the spec: the Shadow Pass (section 4.3): it recomputes
  \<^verbatim>\<open>lightSpaceMatrix\<close> from the light, sets the viewport to the depth target, draws
  every mesh with the depth-only shader, which transforms by \<^verbatim>\<open>lightSpaceMatrix\<close>,
  into the depth attachment, and restores the viewport. The second component is the
  matrix the depth shader was given.
\<close>

definition shadow_pass ::
  "('m, 'd, 'c) pipeline \<Rightarrow> ('m, 'd) renderer \<Rightarrow> ('m, 'd) renderer \<times> 'm" where
  "shadow_pass gpu r0 =
     (let r1 = r0\<lparr>lightSpaceMatrix := light_space gpu (scene r0)\<rparr>;
          r2 = r1\<lparr>view_port := DepthTarget\<rparr>;
          used = lightSpaceMatrix r2;
          r3 = r2\<lparr>depthAttachment := draw_depth gpu used\<rparr>;
          r4 = r3\<lparr>view_port := Window\<rparr>
      in (r4, used))"

text \<open>
  Modelled from the spec: the Forward Pass (section 4.4): it draws the scene, projecting
  each fragment by \<^verbatim>\<open>lightSpaceMatrix\<close> and sampling the depth attachment. The
  second component is the matrix the shadow lookup was given.
\<close>

definition forward_pass ::
  "('m, 'd, 'c) pipeline \<Rightarrow> ('m, 'd) renderer \<Rightarrow> 'c \<times> 'm" where
  "forward_pass gpu r =
     (let used = lightSpaceMatrix r
      in (draw_colour gpu (scene r) used (depthAttachment r), used))"

text \<open>
  Modelled from the spec: what one run of the frame callback of the main script leaves:
  the state for the next frame, the image, and the matrix each of the two passes used.
\<close>

record ('m, 'd, 'c) frame =
  next_state :: "('m, 'd) renderer"
  image :: 'c
  shadow_matrix :: 'm
  lookup_matrix :: 'm

text \<open>
  Modelled from the spec: one frame of the main script (sections 2 and 5): the key
  presses since the last frame have changed the parameters, then the Shadow Pass and the
  Forward Pass run in program order in the one frame callback, which nothing interrupts.
\<close>

definition render_frame ::
  "('m, 'd, 'c) pipeline \<Rightarrow> controller \<Rightarrow> action list \<Rightarrow> ('m, 'd) renderer \<Rightarrow> ('m, 'd, 'c) frame" where
  "render_frame gpu c keys r0 =
     (let r1 = r0\<lparr>scene := fold (handle_action c) keys (scene r0)\<rparr>;
          (r2, m_shadow) = shadow_pass gpu r1;
          (img, m_lookup) = forward_pass gpu r2
      in \<lparr>next_state = r2, image = img, shadow_matrix = m_shadow, lookup_matrix = m_lookup\<rparr>)"

text \<open>
  Modelled from the spec: the frames of a run of the main script, one for each list of
  key presses that arrive between two frames.
\<close>

fun render_frames ::
  "('m, 'd, 'c) pipeline \<Rightarrow> controller \<Rightarrow> action list list \<Rightarrow> ('m, 'd) renderer \<Rightarrow> ('m, 'd, 'c) frame list" where
  "render_frames gpu c [] r = []"
| "render_frames gpu c (keys # rest) r =
     render_frame gpu c keys r # render_frames gpu c rest (next_state (render_frame gpu c keys r))"

subsection \<open>The shadow lookup of the Forward Pass\<close>

text \<open>
  Modelled from the spec: the vectors and the 4x4 matrices (as four rows) of the
  fragment shader, which is not among the sources, over the real numbers.
\<close>

type_synonym vec3 = "real \<times> real \<times> real"
type_synonym vec4 = "real \<times> real \<times> real \<times> real"
type_synonym mat4 = "vec4 \<times> vec4 \<times> vec4 \<times> vec4"

text \<open>Modelled from the spec: the inner product of the fragment shader's 4-vectors.\<close>

definition dot4 :: "vec4 \<Rightarrow> vec4 \<Rightarrow> real" where
  "dot4 = (\<lambda>(a1, a2, a3, a4) (b1, b2, b3, b4). a1 * b1 + a2 * b2 + a3 * b3 + a4 * b4)"

text \<open>Modelled from the spec: the fragment shader's product of a matrix and a vector.\<close>

definition mat_vec :: "mat4 \<Rightarrow> vec4 \<Rightarrow> vec4" where
  "mat_vec = (\<lambda>(r1, r2, r3, r4) v. (dot4 r1 v, dot4 r2 v, dot4 r3 v, dot4 r4 v))"

text \<open>
  Modelled from the spec: the first step of the shadow lookup of the fragment shader
  (section 4.4): the world position of the fragment is projected by the light-space
  matrix into light-clip space.
\<close>

definition light_clip :: "mat4 \<Rightarrow> vec3 \<Rightarrow> vec4" where
  "light_clip m = (\<lambda>(x, y, z). mat_vec m (x, y, z, 1))"

text \<open>
  Modelled from the spec: the perspective division of the shadow lookup (section 4.4),
  by the last component. The quotient has no value when that component is 0.
\<close>

definition perspective_divide :: "vec4 \<Rightarrow> vec3 option" where
  "perspective_divide = (\<lambda>(x, y, z, w). if w = 0 then None else Some (x / w, y / w, z / w))"

text \<open>
  Modelled from the spec: the remapping of the shadow lookup (section 4.4) from [-1,1]
  to the texture space [0,1].
\<close>

definition to_texture_space :: "vec3 \<Rightarrow> vec3" where
  "to_texture_space = (\<lambda>(x, y, z). (x * 0.5 + 0.5, y * 0.5 + 0.5, z * 0.5 + 0.5))"

text \<open>
  Modelled from the spec: the unit cube [0,1]x[0,1]x[0,1] of the edge case policy
  (section 4.4), bounds included.
\<close>

definition in_unit_cube :: "vec3 \<Rightarrow> bool" where
  "in_unit_cube = (\<lambda>(x, y, z). 0 \<le> x \<and> x \<le> 1 \<and> 0 \<le> y \<and> y \<le> 1 \<and> 0 \<le> z \<and> z \<le> 1)"

text \<open>
  Modelled from the spec: the three steps of the shadow lookup together: the fragment's
  coordinate in the texture space of the light, when it has one.
\<close>

definition projected :: "mat4 \<Rightarrow> vec3 \<Rightarrow> vec3 option" where
  "projected m p = map_option to_texture_space (perspective_divide (light_clip m p))"

text \<open>
  Modelled from the spec: the shadow computation of the fragment shader (section 4.4 and
  its edge case policy): a fragment that projects outside the unit cube is unshadowed;
  inside, the depth stored in the depth attachment at the fragment's texture coordinate
  is compared with the fragment's depth from the light less a bias. The result is the
  amount of shadow, 0 for a lit fragment and 1 for a shadowed one, as the sum
  \<open>ambient + (1 - shadow) * (diffuse + specular)\<close> of the spec takes it.
\<close>

definition shadowCalculation :: "mat4 \<Rightarrow> (real \<times> real \<Rightarrow> real) \<Rightarrow> real \<Rightarrow> vec3 \<Rightarrow> real option" where
  "shadowCalculation m depthMap bias p =
     (case projected m p of
        None \<Rightarrow> None
      | Some (u, v, depth) \<Rightarrow>
          if \<not> in_unit_cube (u, v, depth) then Some 0
          else if depth - bias > depthMap (u, v) then Some 1
          else Some 0)"

text \<open>Modelled from the spec: the fragment shader's clamp to [0,1] (section 4.4).\<close>

definition clamp01 :: "real \<Rightarrow> real" where
  "clamp01 x = max 0 (min 1 x)"

text \<open>
  Modelled from the spec: the sum of the fragment shader (section 4.4) over the three
  Phong terms, each an RGB triple: ambient plus the unshadowed part of diffuse plus
  specular, every channel clamped. The ambient term is never shadowed.
\<close>

definition combine :: "vec3 \<Rightarrow> vec3 \<Rightarrow> vec3 \<Rightarrow> real \<Rightarrow> vec3" where
  "combine = (\<lambda>(ar, ag, ab) (dr, dg, db) (sr, sg, sb) shadow.
     (clamp01 (ar + (1 - shadow) * (dr + sr)),
      clamp01 (ag + (1 - shadow) * (dg + sg)),
      clamp01 (ab + (1 - shadow) * (db + sb))))"

text \<open>
  Modelled from the spec: the colour that the fragment shader outputs (section 4.4), for
  a fragment at world position \<open>p\<close> with the given Phong terms.
\<close>

definition fragment_colour ::
  "mat4 \<Rightarrow> (real \<times> real \<Rightarrow> real) \<Rightarrow> real \<Rightarrow> vec3 \<Rightarrow> vec3 \<Rightarrow> vec3 \<Rightarrow> vec3 \<Rightarrow> vec3 option" where
  "fragment_colour m depthMap bias ambient diffuse specular p =
     map_option (combine ambient diffuse specular) (shadowCalculation m depthMap bias p)"

text \<open>The light-space matrix that leaves every position where it is.\<close>

definition identity4 :: mat4 where
  "identity4 = ((1, 0, 0, 0), (0, 1, 0, 0), (0, 0, 1, 0), (0, 0, 0, 1))"

section \<open>Notions used in the properties\<close>

text \<open>
  The texture unit contract: the sampler of the cubemap reads unit 0, the sampler of the
  diffuse 2D texture unit 1 and the sampler of the shadow depth texture unit 2. The
  samplers are integer uniforms; only \<^verbatim>\<open>cubeSampler\<close> is named in this file, the
  locations of the other two belong to the caller.
\<close>

definition unit_contract :: "location \<Rightarrow> location \<Rightarrow> location \<Rightarrow> gl_state \<Rightarrow> bool" where
  "unit_contract cube diffuse depth s =
     (uniforms s cube = Some 0 \<and> uniforms s diffuse = Some 1 \<and> uniforms s depth = Some 2)"

text \<open>The minification filters that read the mipmap levels of a texture.\<close>

definition uses_mipmaps :: "glenum \<Rightarrow> bool" where
  "uses_mipmaps f = (f \<in> set [NEAREST_MIPMAP_NEAREST, LINEAR_MIPMAP_NEAREST,
                               NEAREST_MIPMAP_LINEAR, LINEAR_MIPMAP_LINEAR])"

section \<open>Auxiliary definitions\<close>

text \<open>
  The context while a texture \<open>t\<close>, created in context \<open>s0\<close>, is bound to \<open>target\<close>
  in the active unit and is being set up: \<open>tx\<close> is the texture so far, \<open>cs\<close> the calls
  made since \<open>s0\<close>.
\<close>

definition building ::
  "gl_state \<Rightarrow> glenum \<Rightarrow> texture_name \<Rightarrow> texture \<Rightarrow> gl_call list \<Rightarrow> gl_state" where
  "building s0 target t tx cs =
     s0\<lparr>bindings := (bindings s0)((active_unit s0, target) \<mapsto> t),
        textures := (textures s0)(t \<mapsto> tx),
        next_texture := Suc t,
        calls := calls s0 @ cs\<rparr>"

text \<open>
  The texture objects that the two functions leave behind: the 2D texture of an image
  that the upload accepted with size \<open>d\<close>, the 2D texture of an image that it refused,
  and the cubemap before any face has loaded.
\<close>

definition texture_2d :: "image \<Rightarrow> nat \<times> nat \<Rightarrow> texture" where
  "texture_2d img d = \<lparr>tex_target = Some TEXTURE_2D, min_filter = LINEAR_MIPMAP_LINEAR,
     mag_filter = LINEAR, wrap_s = REPEAT, wrap_t = REPEAT,
     tex_images = [(TEXTURE_2D, 0) \<mapsto> (RGBA, img, d)], mipmaps = True\<rparr>"

definition texture_2d_empty :: texture where
  "texture_2d_empty = \<lparr>tex_target = Some TEXTURE_2D, min_filter = LINEAR_MIPMAP_LINEAR,
     mag_filter = LINEAR, wrap_s = REPEAT, wrap_t = REPEAT,
     tex_images = (\<lambda>_. None), mipmaps = False\<rparr>"

definition texture_cube :: texture where
  "texture_cube = \<lparr>tex_target = Some TEXTURE_CUBE_MAP, min_filter = LINEAR,
     mag_filter = LINEAR, wrap_s = REPEAT, wrap_t = REPEAT,
     tex_images = (\<lambda>_. None), mipmaps = False\<rparr>"

text \<open>The image elements that the loop of \<^verbatim>\<open>configureCubeMap\<close> leaves behind.\<close>

definition cube_images :: "texture_name \<Rightarrow> image_element list" where
  "cube_images cubeMap =
     map (\<lambda>(path, face).
            \<lparr>elem_image = Image path,
             onload = Some \<lparr>cl_cubeMap = cubeMap, cl_face = face, cl_image = Image path\<rparr>,
             onerror = None\<rparr>) faces"

text \<open>
  A context with size limits of 4096, in which program 1 has been linked with an
  integer uniform \<^verbatim>\<open>cubeSampler\<close> and is in use, no image has loaded and nothing
  else has happened yet.
\<close>

definition example_context :: gl_state where
  "example_context =
     \<lparr>active_unit = 0, bindings = (\<lambda>_. None), textures = (\<lambda>_. None), next_texture = 0,
      current_program = Some 1, uniforms = [(1, ''cubeSampler'') \<mapsto> 0],
      error_flag = None, calls = [], max_texture_size = 4096,
      max_cube_map_texture_size = 4096, image_data = (\<lambda>_. None)\<rparr>"

text \<open>
  What the handler of one row of \<^verbatim>\<open>faces\<close> puts into a cubemap, when the image of
  the row loads with a size that the context \<open>s\<close> accepts for a face, and the closure
  that the loop builds from the row.
\<close>

definition face_upload ::
  "(image \<Rightarrow> load_result) \<Rightarrow> gl_state \<Rightarrow> string \<times> glenum \<Rightarrow>
     ((glenum \<times> nat) \<times> (glenum \<times> image \<times> nat \<times> nat)) option" where
  "face_upload result s =
     (\<lambda>(path, face).
        case result (Image path) of
          Failed \<Rightarrow> None
        | Loaded d \<Rightarrow> if size_ok face 0 d s then Some ((face, 0), (RGB, Image path, d)) else None)"

definition face_closure :: "texture_name \<Rightarrow> string \<times> glenum \<Rightarrow> onload_closure" where
  "face_closure cubeMap =
     (\<lambda>(path, face). \<lparr>cl_cubeMap = cubeMap, cl_face = face, cl_image = Image path\<rparr>)"

text \<open>
  The image of a row gives no error: it failed to load, so that no handler ran, or it
  loaded with a size that the context \<open>s\<close> accepts for a face.
\<close>

definition face_clean :: "(image \<Rightarrow> load_result) \<Rightarrow> gl_state \<Rightarrow> string \<times> glenum \<Rightarrow> bool" where
  "face_clean result s =
     (\<lambda>(path, face). case result (Image path) of Failed \<Rightarrow> True | Loaded d \<Rightarrow> size_ok face 0 d s)"

text \<open>The element that the loop builds from a row, for the cubemap \<open>cubeMap\<close>.\<close>

definition face_element :: "texture_name \<Rightarrow> string \<times> glenum \<Rightarrow> image_element" where
  "face_element cubeMap pf =
     \<lparr>elem_image = Image (fst pf), onload = Some (face_closure cubeMap pf), onerror = None\<rparr>"

text \<open>The element that loads the top face, as created when the cubemap is texture 0.\<close>

definition top_image :: image_element where
  "top_image =
     \<lparr>elem_image = Image ''./skybox/top.jpg'',
      onload = Some \<lparr>cl_cubeMap = 0, cl_face = TEXTURE_CUBE_MAP_POSITIVE_Y,
                      cl_image = Image ''./skybox/top.jpg''\<rparr>,
      onerror = None\<rparr>"

text \<open>
  The example context with the three samplers assigned as the contract says, one in
  which \<^verbatim>\<open>cubeSampler\<close> holds another unit, and that one with another program in
  use.
\<close>

definition sampler_context :: gl_state where
  "sampler_context =
     example_context\<lparr>uniforms := [(1, ''cubeSampler'') \<mapsto> 0, (1, ''diffuseSampler'') \<mapsto> 1,
                                   (1, ''depthSampler'') \<mapsto> 2]\<rparr>"

definition stale_context :: gl_state where
  "stale_context = example_context\<lparr>uniforms := [(1, ''cubeSampler'') \<mapsto> 3]\<rparr>"

definition other_program_context :: gl_state where
  "other_program_context = stale_context\<lparr>current_program := Some 2\<rparr>"

text \<open>
  The example context after an image of 8192 by 8192 pixels has loaded, which is more
  than its limit.
\<close>

definition oversize_context :: gl_state where
  "oversize_context = example_context\<lparr>image_data := [Image ''wood.png'' \<mapsto> (8192, 8192)]\<rparr>"

text \<open>The example context after two images of 512 by 512 pixels have loaded.\<close>

definition loaded_context :: gl_state where
  "loaded_context =
     example_context\<lparr>image_data := [Image ''wood.png'' \<mapsto> (512, 512),
                                     Image ''./skybox/top.jpg'' \<mapsto> (512, 512)]\<rparr>"

text \<open>The row of \<^verbatim>\<open>faces\<close> for the top face.\<close>

definition top_row :: "string \<times> glenum" where
  "top_row = (''./skybox/top.jpg'', TEXTURE_CUBE_MAP_POSITIVE_Y)"

text \<open>
  Outcomes of loading the six images: every file is a square of 512 pixels; the same
  with a top image that fails to load; the same with a top image of 512 by 256.
\<close>

definition square_512 :: "image \<Rightarrow> nat \<times> nat" where
  "square_512 img = (512, 512)"

definition top_failed :: "image \<Rightarrow> load_result" where
  "top_failed img = (if src img = ''./skybox/top.jpg'' then Failed else Loaded (512, 512))"

definition top_not_square :: "image \<Rightarrow> load_result" where
  "top_not_square img =
     (if src img = ''./skybox/top.jpg'' then Loaded (512, 256) else Loaded (512, 512))"

text \<open>The faces of a cubemap in which all but the top face hold squares of 512 pixels.\<close>

definition five_faces :: "glenum \<times> nat \<Rightarrow> (glenum \<times> image \<times> nat \<times> nat) option" where
  "five_faces =
     [(TEXTURE_CUBE_MAP_POSITIVE_X, 0) \<mapsto> (RGB, Image ''./skybox/right.jpg'', 512, 512),
      (TEXTURE_CUBE_MAP_NEGATIVE_X, 0) \<mapsto> (RGB, Image ''./skybox/left.jpg'', 512, 512),
      (TEXTURE_CUBE_MAP_NEGATIVE_Y, 0) \<mapsto> (RGB, Image ''./skybox/bottom.jpg'', 512, 512),
      (TEXTURE_CUBE_MAP_POSITIVE_Z, 0) \<mapsto> (RGB, Image ''./skybox/front.jpg'', 512, 512),
      (TEXTURE_CUBE_MAP_NEGATIVE_Z, 0) \<mapsto> (RGB, Image ''./skybox/back.jpg'', 512, 512)]"

section \<open>Properties\<close>

subsection \<open>What each call leaves of the log\<close>

lemma calls_log_call: "calls (log_call c s) = calls s @ [c]"
  by (simp add: log_call_def)

lemma calls_record_error: "calls (record_error e s) = calls s"
  by (simp add: record_error_def)

lemma calls_update_texture: "calls (update_texture t f s) = calls s"
  by (simp add: update_texture_def calls_record_error split: option.split)

lemma calls_createTexture:
  "calls (snd (createTexture s)) = calls s @ [CreateTexture (fst (createTexture s))]"
  by (simp add: createTexture_def Let_def calls_log_call)

lemma calls_bindTexture: "calls (bindTexture target tex s) = calls s @ [BindTexture target tex]"
  by (simp add: bindTexture_def calls_log_call calls_record_error split: option.split)

lemma calls_texParameteri:
  "calls (texParameteri target pname param s) = calls s @ [TexParameteri target pname param]"
  by (simp add: texParameteri_def calls_log_call calls_record_error calls_update_texture
           split: option.split)

lemma calls_texImage2D:
  "calls (texImage2D target level ifmt fmt ty img s) =
     calls s @ [TexImage2D target level ifmt fmt ty img]"
  by (simp add: texImage2D_def calls_log_call calls_record_error split: option.split)

lemma calls_generateMipmap: "calls (generateMipmap target s) = calls s @ [GenerateMipmap target]"
  by (simp add: generateMipmap_def calls_log_call calls_record_error split: option.split)

lemma calls_activeTexture: "calls (activeTexture e s) = calls s @ [ActiveTexture e]"
  by (simp add: activeTexture_def calls_log_call calls_record_error split: option.split)

lemma calls_getUniformLocation:
  "calls (snd (getUniformLocation p name s)) = calls s @ [GetUniformLocation p name]"
  by (simp add: getUniformLocation_def calls_log_call)

lemma calls_uniform1i: "calls (uniform1i loc v s) = calls s @ [Uniform1i loc v]"
  by (simp add: uniform1i_def calls_log_call calls_record_error split: option.split)

lemmas calls_simps =
  calls_createTexture calls_bindTexture calls_texParameteri calls_texImage2D
  calls_generateMipmap calls_activeTexture calls_getUniformLocation calls_uniform1i

subsection \<open>The effect of each function on the context\<close>

lemma record_error_twice: "record_error e2 (record_error e1 s) = record_error e1 s"
  by (simp add: record_error_def)

lemma record_error_building:
  "record_error e (building s0 target t tx cs) = building (record_error e s0) target t tx cs"
  by (simp add: record_error_def building_def)

lemma record_error_fields:
  "active_unit (record_error e s) = active_unit s"
  "bindings (record_error e s) = bindings s"
  "textures (record_error e s) = textures s"
  "next_texture (record_error e s) = next_texture s"
  "current_program (record_error e s) = current_program s"
  "uniforms (record_error e s) = uniforms s"
  "max_texture_size (record_error e s) = max_texture_size s"
  "max_cube_map_texture_size (record_error e s) = max_cube_map_texture_size s"
  "image_data (record_error e s) = image_data s"
  "error_flag (record_error e s) = (if error_flag s = None then Some e else error_flag s)"
  by (simp_all add: record_error_def)

lemma size_ok_limits:
  assumes "max_texture_size s' = max_texture_size s"
    and "max_cube_map_texture_size s' = max_cube_map_texture_size s"
  shows "size_ok target level d s' = size_ok target level d s"
  using assms by (simp add: size_ok_def)

lemma size_ok_updates:
  "size_ok target level d (s\<lparr>image_data := i\<rparr>) = size_ok target level d s"
  "size_ok target level d (s\<lparr>textures := x\<rparr>) = size_ok target level d s"
  "size_ok target level d (s\<lparr>bindings := b\<rparr>) = size_ok target level d s"
  "size_ok target level d (s\<lparr>error_flag := e\<rparr>) = size_ok target level d s"
  "size_ok target level d (s\<lparr>calls := cs\<rparr>) = size_ok target level d s"
  "size_ok target level d (s\<lparr>active_unit := u\<rparr>) = size_ok target level d s"
  "size_ok target level d (s\<lparr>next_texture := n\<rparr>) = size_ok target level d s"
  "size_ok target level d (s\<lparr>uniforms := us\<rparr>) = size_ok target level d s"
  "size_ok target level d (s\<lparr>current_program := p\<rparr>) = size_ok target level d s"
  by (simp_all add: size_ok_def)

lemma accepted_size_cong:
  assumes "max_texture_size s' = max_texture_size s"
    and "max_cube_map_texture_size s' = max_cube_map_texture_size s"
    and "image_data s' img = image_data s img"
  shows "accepted_size target level img s' = accepted_size target level img s"
  using assms by (simp add: accepted_size_def size_ok_limits[OF assms(1,2)] split: option.split)

lemma accepted_size_building:
  "accepted_size it level img (building s0 target t tx cs) = accepted_size it level img s0"
  by (rule accepted_size_cong) (simp_all add: building_def)

lemma texImage2D_bound:
  assumes "binding_target it = Some bt" "fmt = RGB \<or> fmt = RGBA"
    and "bindings s (active_unit s, bt) = Some t" "textures s t = Some tx"
  shows "texImage2D it level fmt fmt UNSIGNED_BYTE img s =
           (case accepted_size it level img s of
              None \<Rightarrow> record_error INVALID_VALUE s
            | Some d \<Rightarrow>
                s\<lparr>textures := (textures s)(t \<mapsto>
                     tx\<lparr>tex_images := (tex_images tx)((it, level) \<mapsto> (fmt, img, d))\<rparr>)\<rparr>)
           \<lparr>calls := calls s @ [TexImage2D it level fmt fmt UNSIGNED_BYTE img]\<rparr>"
  using assms
  by (auto simp add: texImage2D_def log_call_def record_error_def split: option.split)

lemma createTexture_eq:
  "createTexture s =
     (next_texture s,
      s\<lparr>textures := (textures s)(next_texture s \<mapsto> new_texture),
        next_texture := Suc (next_texture s),
        calls := calls s @ [CreateTexture (next_texture s)]\<rparr>)"
  by (simp add: createTexture_def Let_def log_call_def)

lemma create_then_bind:
  assumes "target = TEXTURE_2D \<or> target = TEXTURE_CUBE_MAP"
  shows "bindTexture target (Some (next_texture s)) (snd (createTexture s)) =
           building s target (next_texture s) (new_texture\<lparr>tex_target := Some target\<rparr>)
             [CreateTexture (next_texture s), BindTexture target (Some (next_texture s))]"
  using assms
  by (auto simp add: createTexture_eq bindTexture_def log_call_def building_def new_texture_def)

lemma texParameteri_building:
  assumes "target = TEXTURE_2D \<or> target = TEXTURE_CUBE_MAP" "parameter_ok pname param"
  shows "texParameteri target pname param (building s0 target t tx cs) =
           building s0 target t (set_parameter pname param tx)
             (cs @ [TexParameteri target pname param])"
  using assms
  by (auto simp add: texParameteri_def update_texture_def log_call_def building_def)

lemma texImage2D_building:
  assumes "binding_target it = Some target" "fmt = RGB \<or> fmt = RGBA"
  shows "texImage2D it level fmt fmt UNSIGNED_BYTE img (building s0 target t tx cs) =
           (case accepted_size it level img s0 of
              None \<Rightarrow>
                building (record_error INVALID_VALUE s0) target t tx
                  (cs @ [TexImage2D it level fmt fmt UNSIGNED_BYTE img])
            | Some d \<Rightarrow>
                building s0 target t
                  (tx\<lparr>tex_images := (tex_images tx)((it, level) \<mapsto> (fmt, img, d))\<rparr>)
                  (cs @ [TexImage2D it level fmt fmt UNSIGNED_BYTE img]))"
proof -
  let ?b = "building s0 target t tx cs"
  have b: "bindings ?b (active_unit ?b, target) = Some t" and x: "textures ?b t = Some tx"
    by (simp_all add: building_def)
  show ?thesis
    unfolding texImage2D_bound[OF assms b x] accepted_size_building
    by (simp add: building_def record_error_def split: option.split)
qed

lemma generateMipmap_building:
  assumes "target = TEXTURE_2D \<or> target = TEXTURE_CUBE_MAP"
  shows "generateMipmap target (building s0 target t tx cs) =
           (if base_level_defined target tx
            then building s0 target t (tx\<lparr>mipmaps := True\<rparr>) (cs @ [GenerateMipmap target])
            else building (record_error INVALID_OPERATION s0) target t tx
                   (cs @ [GenerateMipmap target]))"
  using assms
  by (auto simp add: generateMipmap_def log_call_def record_error_def building_def)

lemma unbind_building:
  assumes "target = TEXTURE_2D \<or> target = TEXTURE_CUBE_MAP"
  shows "bindTexture target None (building s0 target t tx cs) =
           s0\<lparr>bindings := (bindings s0)((active_unit s0, target) := None),
              textures := (textures s0)(t \<mapsto> tx),
              next_texture := Suc t,
              calls := calls s0 @ cs @ [BindTexture target None]\<rparr>"
  using assms
  by (auto simp add: bindTexture_def log_call_def building_def)

lemma configureTexture_eq:
  "configureTexture img s =
     (next_texture s,
      s\<lparr>bindings := (bindings s)((active_unit s, TEXTURE_2D) := None),
        textures := (textures s)(next_texture s \<mapsto>
          (case accepted_size TEXTURE_2D 0 img s of
             None \<Rightarrow> texture_2d_empty
           | Some d \<Rightarrow> texture_2d img d)),
        next_texture := Suc (next_texture s),
        error_flag :=
          (case accepted_size TEXTURE_2D 0 img s of
             None \<Rightarrow> if error_flag s = None then Some INVALID_VALUE else error_flag s
           | Some d \<Rightarrow> error_flag s),
        calls := calls s @
          [CreateTexture (next_texture s),
           BindTexture TEXTURE_2D (Some (next_texture s)),
           TexImage2D TEXTURE_2D 0 RGBA RGBA UNSIGNED_BYTE img,
           TexParameteri TEXTURE_2D TEXTURE_MIN_FILTER LINEAR_MIPMAP_LINEAR,
           TexParameteri TEXTURE_2D TEXTURE_MAG_FILTER LINEAR,
           TexParameteri TEXTURE_2D TEXTURE_WRAP_S REPEAT,
           TexParameteri TEXTURE_2D TEXTURE_WRAP_T REPEAT,
           GenerateMipmap TEXTURE_2D,
           BindTexture TEXTURE_2D None]\<rparr>)"
proof -
  have fst_create: "fst (createTexture s) = next_texture s"
    by (simp add: createTexture_eq)
  show ?thesis
  proof (cases "accepted_size TEXTURE_2D 0 img s")
    case None
    then show ?thesis
      by (simp add: configureTexture_def Let_def split_beta fst_create create_then_bind
            texImage2D_building texParameteri_building generateMipmap_building unbind_building
            binding_target_def parameter_ok_def min_filters_def mag_filters_def wrap_modes_def
            set_parameter_def base_level_defined_def new_texture_def texture_2d_empty_def
            record_error_twice record_error_def)
  next
    case (Some d)
    then show ?thesis
      by (simp add: configureTexture_def Let_def split_beta fst_create create_then_bind
            texImage2D_building texParameteri_building generateMipmap_building unbind_building
            binding_target_def parameter_ok_def min_filters_def mag_filters_def wrap_modes_def
            set_parameter_def base_level_defined_def new_texture_def texture_2d_def)
  qed
qed

lemma activeTexture0_eq:
  "activeTexture TEXTURE0 s = s\<lparr>active_unit := 0, calls := calls s @ [ActiveTexture TEXTURE0]\<rparr>"
  by (simp add: activeTexture_def unit_of_def log_call_def)

lemma face_loop_eq: "face_loop c i acc = acc @ map (load_face c) [i..<6]"
proof (induction c i acc rule: face_loop.induct)
  case (1 c i acc)
  show ?case
  proof (cases "i < 6")
    case True
    with 1 show ?thesis by (subst face_loop.simps) (simp add: upt_conv_Cons)
  next
    case False
    then show ?thesis by (subst face_loop.simps) simp
  qed
qed

lemma upt6: "[0..<6] = [0, 1, 2, 3, 4, 5::nat]"
  by code_simp

lemma face_loop_images: "face_loop cubeMap 0 [] = cube_images cubeMap"
  by (simp add: face_loop_eq upt6 load_face_def faces_def new_Image_def Let_def cube_images_def)

lemma configureCubeMap_eq:
  "configureCubeMap prog s =
     (next_texture s, cube_images (next_texture s),
      uniform1i (if uniforms s (prog, ''cubeSampler'') = None then None
                 else Some (prog, ''cubeSampler'')) 0
        (s\<lparr>active_unit := 0,
           bindings := (bindings s)((0, TEXTURE_CUBE_MAP) \<mapsto> next_texture s),
           textures := (textures s)(next_texture s \<mapsto> texture_cube),
           next_texture := Suc (next_texture s),
           calls := calls s @
             [ActiveTexture TEXTURE0,
              CreateTexture (next_texture s),
              BindTexture TEXTURE_CUBE_MAP (Some (next_texture s)),
              TexParameteri TEXTURE_CUBE_MAP TEXTURE_MAG_FILTER LINEAR,
              TexParameteri TEXTURE_CUBE_MAP TEXTURE_MIN_FILTER LINEAR,
              GetUniformLocation prog ''cubeSampler'']\<rparr>))"
proof -
  let ?s1 = "activeTexture TEXTURE0 s"
  have fst_create: "fst (createTexture ?s1) = next_texture s"
    by (simp add: createTexture_eq activeTexture0_eq)
  have nt: "next_texture ?s1 = next_texture s"
    by (simp add: activeTexture0_eq)
  have bound: "bindTexture TEXTURE_CUBE_MAP (Some (next_texture s)) (snd (createTexture ?s1)) =
      building ?s1 TEXTURE_CUBE_MAP (next_texture s)
        (new_texture\<lparr>tex_target := Some TEXTURE_CUBE_MAP\<rparr>)
        [CreateTexture (next_texture s), BindTexture TEXTURE_CUBE_MAP (Some (next_texture s))]"
    using create_then_bind[of TEXTURE_CUBE_MAP ?s1] by (simp add: nt)
  show ?thesis
    by (simp add: configureCubeMap_def Let_def split_beta fst_create bound
          texParameteri_building parameter_ok_def min_filters_def mag_filters_def
          set_parameter_def new_texture_def texture_cube_def face_loop_images
          getUniformLocation_def log_call_def del: face_loop.simps)
       (auto simp add: building_def activeTexture0_eq)
qed

lemma images_of_configureCubeMap:
  "fst (snd (configureCubeMap prog s)) = cube_images (next_texture s)"
  "fst (configureCubeMap prog s) = next_texture s"
  by (simp_all add: configureCubeMap_eq)

subsection \<open>The order of the 2D texture upload\<close>

text \<open>
  C1. For every image and every context, \<^verbatim>\<open>configureTexture\<close> is the nine calls of
  the API in this order, each made on the context that the one before left: it creates
  a texture and binds it to \<^verbatim>\<open>TEXTURE_2D\<close>, uploads the image, sets the minification
  filter to \<^verbatim>\<open>LINEAR_MIPMAP_LINEAR\<close>, sets the magnification filter to
  \<^verbatim>\<open>LINEAR\<close>, sets the wrap mode to \<^verbatim>\<open>REPEAT\<close> on S and then on T, generates the
  mipmaps, and last binds null to \<^verbatim>\<open>TEXTURE_2D\<close>; it returns the texture it
  created. What they leave is this: the \<^verbatim>\<open>TEXTURE_2D\<close> binding of the active unit
  cleared, the new texture with the four parameters, and the nine calls in the log. When
  the upload accepts the image, the texture holds it at level 0 with its mipmaps and the
  error flag is as before; when the upload refuses the image, the upload and the
  generation of mipmaps, made in their places, store nothing and the error flag gets
  \<^verbatim>\<open>INVALID_VALUE\<close>.
\<close>

theorem configureTexture_call_order:
  "snd (configureTexture img s) =
     bindTexture TEXTURE_2D None
      (generateMipmap TEXTURE_2D
        (texParameteri TEXTURE_2D TEXTURE_WRAP_T REPEAT
          (texParameteri TEXTURE_2D TEXTURE_WRAP_S REPEAT
            (texParameteri TEXTURE_2D TEXTURE_MAG_FILTER LINEAR
              (texParameteri TEXTURE_2D TEXTURE_MIN_FILTER LINEAR_MIPMAP_LINEAR
                (texImage2D TEXTURE_2D 0 RGBA RGBA UNSIGNED_BYTE img
                  (bindTexture TEXTURE_2D (Some (fst (createTexture s)))
                    (snd (createTexture s)))))))))
   \<and> fst (configureTexture img s) = fst (createTexture s)
   \<and> configureTexture img s =
     (next_texture s,
      s\<lparr>bindings := (bindings s)((active_unit s, TEXTURE_2D) := None),
        textures := (textures s)(next_texture s \<mapsto>
          (case accepted_size TEXTURE_2D 0 img s of
             None \<Rightarrow> texture_2d_empty
           | Some d \<Rightarrow> texture_2d img d)),
        next_texture := Suc (next_texture s),
        error_flag :=
          (case accepted_size TEXTURE_2D 0 img s of
             None \<Rightarrow> if error_flag s = None then Some INVALID_VALUE else error_flag s
           | Some d \<Rightarrow> error_flag s),
        calls := calls s @
          [CreateTexture (next_texture s),
           BindTexture TEXTURE_2D (Some (next_texture s)),
           TexImage2D TEXTURE_2D 0 RGBA RGBA UNSIGNED_BYTE img,
           TexParameteri TEXTURE_2D TEXTURE_MIN_FILTER LINEAR_MIPMAP_LINEAR,
           TexParameteri TEXTURE_2D TEXTURE_MAG_FILTER LINEAR,
           TexParameteri TEXTURE_2D TEXTURE_WRAP_S REPEAT,
           TexParameteri TEXTURE_2D TEXTURE_WRAP_T REPEAT,
           GenerateMipmap TEXTURE_2D,
           BindTexture TEXTURE_2D None]\<rparr>)"
proof -
  have steps: "snd (configureTexture img s) =
     bindTexture TEXTURE_2D None
      (generateMipmap TEXTURE_2D
        (texParameteri TEXTURE_2D TEXTURE_WRAP_T REPEAT
          (texParameteri TEXTURE_2D TEXTURE_WRAP_S REPEAT
            (texParameteri TEXTURE_2D TEXTURE_MAG_FILTER LINEAR
              (texParameteri TEXTURE_2D TEXTURE_MIN_FILTER LINEAR_MIPMAP_LINEAR
                (texImage2D TEXTURE_2D 0 RGBA RGBA UNSIGNED_BYTE img
                  (bindTexture TEXTURE_2D (Some (fst (createTexture s)))
                    (snd (createTexture s)))))))))"
    and result: "fst (configureTexture img s) = fst (createTexture s)"
    by (simp_all add: configureTexture_def Let_def split_beta)
  show ?thesis
    using steps result configureTexture_eq[of img s] by blast
qed

subsection \<open>The six faces\<close>

text \<open>
  C5. \<^verbatim>\<open>configureCubeMap\<close> starts loading exactly six images, named right, left, top,
  bottom, front and back in \<^verbatim>\<open>./skybox/\<close>, and the handler of each uploads that image
  to +X, -X, +Y, -Y, +Z and -Z in turn. The six targets are distinct and are all the
  face targets of a cubemap.
\<close>

theorem cube_faces_table:
  "map (\<lambda>e. (src (elem_image e), map_option cl_face (onload e), map_option cl_image (onload e)))
       (fst (snd (configureCubeMap prog s))) =
     [(''./skybox/right.jpg'', Some TEXTURE_CUBE_MAP_POSITIVE_X, Some (Image ''./skybox/right.jpg'')),
      (''./skybox/left.jpg'', Some TEXTURE_CUBE_MAP_NEGATIVE_X, Some (Image ''./skybox/left.jpg'')),
      (''./skybox/top.jpg'', Some TEXTURE_CUBE_MAP_POSITIVE_Y, Some (Image ''./skybox/top.jpg'')),
      (''./skybox/bottom.jpg'', Some TEXTURE_CUBE_MAP_NEGATIVE_Y, Some (Image ''./skybox/bottom.jpg'')),
      (''./skybox/front.jpg'', Some TEXTURE_CUBE_MAP_POSITIVE_Z, Some (Image ''./skybox/front.jpg'')),
      (''./skybox/back.jpg'', Some TEXTURE_CUBE_MAP_NEGATIVE_Z, Some (Image ''./skybox/back.jpg''))]
   \<and> length (fst (snd (configureCubeMap prog s))) = 6
   \<and> distinct (map snd faces)
   \<and> set (map snd faces) = set cube_faces
   \<and> length cube_faces = 6"
  by (simp add: images_of_configureCubeMap cube_images_def faces_def cube_faces_def)


subsection \<open>Load events in any order\<close>

lemma cube_images_elements: "cube_images t = map (face_element t) faces"
  by (simp add: cube_images_def face_element_def face_closure_def split_beta)

lemma cube_images_cases:
  assumes "e \<in> set (cube_images t)"
  obtains pf where "pf \<in> set faces" and "e = face_element t pf"
  using assms by (auto simp add: cube_images_elements)

lemma faces_are_cube_faces: "(path, face) \<in> set faces \<Longrightarrow> face \<in> set cube_faces"
  by (auto simp add: faces_def cube_faces_def)

lemma faces_not_2d: "(path, face) \<in> set faces \<Longrightarrow> face \<noteq> TEXTURE_2D"
  by (auto simp add: faces_def)

lemma faces_face_determines_path:
  "(p1, f) \<in> set faces \<Longrightarrow> (p2, f) \<in> set faces \<Longrightarrow> p1 = p2"
  by (auto simp add: faces_def)

lemma faces_path_determines_face:
  "(p, f1) \<in> set faces \<Longrightarrow> (p, f2) \<in> set faces \<Longrightarrow> f1 = f2"
  by (auto simp add: faces_def)

lemma size_ok_face:
  assumes "(path, face) \<in> set faces"
  shows "size_ok face level d s =
           (0 < fst d \<and> 0 < snd d \<and> fst d = snd d \<and> fst d * 2 ^ level \<le> max_cube_map_texture_size s)"
  using faces_not_2d[OF assms] by (simp add: size_ok_def)

lemma onload_body_face:
  assumes "cl_face c \<in> set cube_faces"
  shows "onload_body c s =
     (case bindings s (active_unit s, TEXTURE_CUBE_MAP) of
        None \<Rightarrow> record_error INVALID_OPERATION s
      | Some t \<Rightarrow>
          (case textures s t of
             None \<Rightarrow> record_error INVALID_OPERATION s
           | Some tx \<Rightarrow>
               (case accepted_size (cl_face c) 0 (cl_image c) s of
                  None \<Rightarrow> record_error INVALID_VALUE s
                | Some d \<Rightarrow>
                    s\<lparr>textures := (textures s)(t \<mapsto>
                         tx\<lparr>tex_images :=
                              (tex_images tx)((cl_face c, 0) \<mapsto> (RGB, cl_image c, d))\<rparr>)\<rparr>)))
       \<lparr>calls := calls s @ [TexImage2D (cl_face c) 0 RGB RGB UNSIGNED_BYTE (cl_image c)]\<rparr>"
proof -
  from assms have "binding_target (cl_face c) = Some TEXTURE_CUBE_MAP"
    by (auto simp add: binding_target_def cube_faces_def)
  then show ?thesis
    by (simp add: onload_body_def texImage2D_def log_call_def record_error_def
          split: option.split)
qed

text \<open>
  The load event of the element of a row, written out: the element now holds \<open>d\<close>, and
  the upload goes to the texture bound in the active unit, if there is one and \<open>d\<close> is
  accepted.
\<close>

lemma load_event_face:
  assumes "(path, face) \<in> set faces"
  shows "load_event d (face_element c (path, face)) s =
     (case bindings s (active_unit s, TEXTURE_CUBE_MAP) of
        None \<Rightarrow> record_error INVALID_OPERATION (s\<lparr>image_data := (image_data s)(Image path \<mapsto> d)\<rparr>)
      | Some t \<Rightarrow>
          (case textures s t of
             None \<Rightarrow>
               record_error INVALID_OPERATION (s\<lparr>image_data := (image_data s)(Image path \<mapsto> d)\<rparr>)
           | Some tx \<Rightarrow>
               if size_ok face 0 d s
               then s\<lparr>image_data := (image_data s)(Image path \<mapsto> d),
                      textures := (textures s)(t \<mapsto>
                         tx\<lparr>tex_images := (tex_images tx)((face, 0) \<mapsto> (RGB, Image path, d))\<rparr>)\<rparr>
               else record_error INVALID_VALUE
                      (s\<lparr>image_data := (image_data s)(Image path \<mapsto> d)\<rparr>)))
       \<lparr>calls := calls s @ [TexImage2D face 0 RGB RGB UNSIGNED_BYTE (Image path)]\<rparr>"
proof -
  have f: "cl_face (face_closure c (path, face)) \<in> set cube_faces"
    using assms by (simp add: face_closure_def faces_are_cube_faces)
  have ok: "size_ok face 0 d (s\<lparr>image_data := (image_data s)(Image path \<mapsto> d)\<rparr>) = size_ok face 0 d s"
    by (rule size_ok_limits) simp_all
  have "load_event d (face_element c (path, face)) s =
        onload_body (face_closure c (path, face))
          (s\<lparr>image_data := (image_data s)(Image path \<mapsto> d)\<rparr>)"
    by (simp add: load_event_def face_element_def fire_def)
  also have "\<dots> =
     (case bindings s (active_unit s, TEXTURE_CUBE_MAP) of
        None \<Rightarrow> record_error INVALID_OPERATION (s\<lparr>image_data := (image_data s)(Image path \<mapsto> d)\<rparr>)
      | Some t \<Rightarrow>
          (case textures s t of
             None \<Rightarrow>
               record_error INVALID_OPERATION (s\<lparr>image_data := (image_data s)(Image path \<mapsto> d)\<rparr>)
           | Some tx \<Rightarrow>
               if size_ok face 0 d s
               then s\<lparr>image_data := (image_data s)(Image path \<mapsto> d),
                      textures := (textures s)(t \<mapsto>
                         tx\<lparr>tex_images := (tex_images tx)((face, 0) \<mapsto> (RGB, Image path, d))\<rparr>)\<rparr>
               else record_error INVALID_VALUE
                      (s\<lparr>image_data := (image_data s)(Image path \<mapsto> d)\<rparr>)))
       \<lparr>calls := calls s @ [TexImage2D face 0 RGB RGB UNSIGNED_BYTE (Image path)]\<rparr>"
    by (subst onload_body_face[OF f])
       (simp add: face_closure_def accepted_size_def ok record_error_def split: option.split)
  finally show ?thesis .
qed

lemma finish_loading_simps:
  "finish_loading (Loaded d) e s = load_event d e s"
  "finish_loading Failed e s = error_event e s"
  by (simp_all add: finish_loading_def)

lemma failed_face_element: "finish_loading Failed (face_element c pf) s = s"
  by (simp add: finish_loading_simps error_event_def fire_def face_element_def)

lemma load_event_forget:
  assumes "pf \<in> set faces"
  shows "(load_event d (face_element c pf) (s\<lparr>calls := cs\<rparr>))\<lparr>calls := []\<rparr> =
         (load_event d (face_element c pf) s)\<lparr>calls := []\<rparr>"
proof -
  obtain path face where pf: "pf = (path, face)"
    by (cases pf)
  have ok: "size_ok face 0 d (s\<lparr>calls := cs\<rparr>) = size_ok face 0 d s"
    by (rule size_ok_limits) simp_all
  show ?thesis
    using assms unfolding pf
    by (simp add: load_event_face ok record_error_def split: option.split)
qed

lemma finish_loading_forget:
  assumes "pf \<in> set faces"
  shows "(finish_loading r (face_element c pf) (s\<lparr>calls := cs\<rparr>))\<lparr>calls := []\<rparr> =
         (finish_loading r (face_element c pf) s)\<lparr>calls := []\<rparr>"
  by (cases r) (simp_all add: finish_loading_simps(1) failed_face_element load_event_forget[OF assms])

lemma load_events_commute:
  assumes "(p1, f1) \<in> set faces" "(p2, f2) \<in> set faces" "p1 \<noteq> p2" "f1 \<noteq> f2"
  shows "(load_event d1 (face_element c (p1, f1))
            ((load_event d2 (face_element c (p2, f2)) s)\<lparr>calls := []\<rparr>))\<lparr>calls := []\<rparr> =
         (load_event d2 (face_element c (p2, f2))
            ((load_event d1 (face_element c (p1, f1)) s)\<lparr>calls := []\<rparr>))\<lparr>calls := []\<rparr>"
proof (cases "bindings s (active_unit s, TEXTURE_CUBE_MAP)")
  case None
  then show ?thesis
    using assms(3)
    by (simp add: load_event_face[OF assms(1)] load_event_face[OF assms(2)]
          record_error_def fun_upd_twist)
next
  case (Some t)
  show ?thesis
  proof (cases "textures s t")
    case None
    with Some show ?thesis
      using assms(3)
      by (simp add: load_event_face[OF assms(1)] load_event_face[OF assms(2)]
            record_error_def fun_upd_twist)
  next
    case tx: (Some tx)
    show ?thesis
    proof (cases "size_ok f1 0 d1 s"; cases "size_ok f2 0 d2 s")
      assume "size_ok f1 0 d1 s" "size_ok f2 0 d2 s"
      with Some tx assms(3,4) show ?thesis
        by (simp add: load_event_face[OF assms(1)] load_event_face[OF assms(2)]
              size_ok_updates fun_upd_twist)
    next
      assume "size_ok f1 0 d1 s" "\<not> size_ok f2 0 d2 s"
      with Some tx assms(3,4) show ?thesis
        by (simp add: load_event_face[OF assms(1)] load_event_face[OF assms(2)]
              size_ok_updates record_error_def fun_upd_twist)
    next
      assume "\<not> size_ok f1 0 d1 s" "size_ok f2 0 d2 s"
      with Some tx assms(3,4) show ?thesis
        by (simp add: load_event_face[OF assms(1)] load_event_face[OF assms(2)]
              size_ok_updates record_error_def fun_upd_twist)
    next
      assume "\<not> size_ok f1 0 d1 s" "\<not> size_ok f2 0 d2 s"
      with Some tx assms(3,4) show ?thesis
        by (simp add: load_event_face[OF assms(1)] load_event_face[OF assms(2)]
              size_ok_updates record_error_def fun_upd_twist)
    qed
  qed
qed

lemma finish_loading_commute:
  assumes "pf1 \<in> set faces" "pf2 \<in> set faces"
  shows "(finish_loading (result (Image (fst pf1))) (face_element c pf1)
            ((finish_loading (result (Image (fst pf2))) (face_element c pf2) s)
               \<lparr>calls := []\<rparr>))\<lparr>calls := []\<rparr> =
         (finish_loading (result (Image (fst pf2))) (face_element c pf2)
            ((finish_loading (result (Image (fst pf1))) (face_element c pf1) s)
               \<lparr>calls := []\<rparr>))\<lparr>calls := []\<rparr>"
proof (cases "pf1 = pf2")
  case True
  then show ?thesis by simp
next
  case False
  obtain p1 f1 p2 f2 where pf: "pf1 = (p1, f1)" "pf2 = (p2, f2)"
    by (cases pf1, cases pf2) auto
  from False assms have ne: "p1 \<noteq> p2" "f1 \<noteq> f2"
    unfolding pf by (auto dest: faces_face_determines_path faces_path_determines_face)
  note in1 = assms(1)[unfolded pf] and in2 = assms(2)[unfolded pf]
  show ?thesis
  proof (cases "result (Image p1)")
    case Failed
    then show ?thesis
      by (simp add: pf failed_face_element finish_loading_forget[OF in2])
  next
    case l1: (Loaded d1)
    show ?thesis
    proof (cases "result (Image p2)")
      case Failed
      with l1 show ?thesis
        by (simp add: pf failed_face_element finish_loading_forget[OF in1])
    next
      case (Loaded d2)
      with l1 show ?thesis
        by (simp add: pf finish_loading_simps(1) load_events_commute[OF in1 in2 ne])
    qed
  qed
qed

text \<open>
  A run of load and error events of elements of the cubemap, in any order, with the log
  set aside.
\<close>

lemma fold_finish_loading_forget:
  assumes "set es \<subseteq> set (cube_images c)"
  shows "(fold (\<lambda>e. finish_loading (result (elem_image e)) e) es s)\<lparr>calls := []\<rparr> =
         fold (\<lambda>e s. (finish_loading (result (elem_image e)) e s)\<lparr>calls := []\<rparr>) es
           (s\<lparr>calls := []\<rparr>)"
  using assms
proof (induction es arbitrary: s)
  case Nil
  show ?case by simp
next
  case (Cons e es)
  then have "e \<in> set (cube_images c)" and es: "set es \<subseteq> set (cube_images c)"
    by simp_all
  then obtain pf where pf: "pf \<in> set faces" and e: "e = face_element c pf"
    by (auto elim: cube_images_cases)
  show ?case
    by (simp add: Cons.IH[OF es] e finish_loading_forget[OF pf])
qed

lemma permuted_loading:
  assumes "mset order1 = mset (cube_images c)" "mset order2 = mset (cube_images c)"
  shows "(fold (\<lambda>e. finish_loading (result (elem_image e)) e) order1 s)\<lparr>calls := []\<rparr> =
         (fold (\<lambda>e. finish_loading (result (elem_image e)) e) order2 s)\<lparr>calls := []\<rparr>"
proof -
  let ?U = "\<lambda>e s. (finish_loading (result (elem_image e)) e s)\<lparr>calls := []\<rparr>"
  have set1: "set order1 = set (cube_images c)"
    using assms(1) by (rule mset_eq_setD)
  have set2: "set order2 = set (cube_images c)"
    using assms(2) by (rule mset_eq_setD)
  have "fold ?U order1 = fold ?U order2"
  proof (rule fold_multiset_equiv)
    fix x y assume "x \<in> set order1" "y \<in> set order1"
    then have x: "x \<in> set (cube_images c)" and y: "y \<in> set (cube_images c)"
      unfolding set1 by simp_all
    from x obtain pf1 where 1: "pf1 \<in> set faces" "x = face_element c pf1"
      by (rule cube_images_cases)
    from y obtain pf2 where 2: "pf2 \<in> set faces" "y = face_element c pf2"
      by (rule cube_images_cases)
    have e: "elem_image (face_element c pf) = Image (fst pf)" for pf
      by (simp add: face_element_def)
    show "?U x \<circ> ?U y = ?U y \<circ> ?U x"
      unfolding 1 2 e using finish_loading_commute[OF 1(1) 2(1), of result c]
      by (simp add: fun_eq_iff)
  next
    show "mset order1 = mset order2" using assms by simp
  qed
  moreover have "set order1 \<subseteq> set (cube_images c)" "set order2 \<subseteq> set (cube_images c)"
    using set1 set2 by simp_all
  ultimately show ?thesis
    by (simp add: fold_finish_loading_forget)
qed

text \<open>What a run of events leaves in the texture that stays bound.\<close>

lemma face_upload_limits:
  assumes "max_texture_size s' = max_texture_size s"
    and "max_cube_map_texture_size s' = max_cube_map_texture_size s"
  shows "face_upload result s' = face_upload result s"
    and "face_clean result s' = face_clean result s"
  by (auto simp add: face_upload_def face_clean_def fun_eq_iff size_ok_limits[OF assms]
        split: load_result.split)

lemma finish_loading_row:
  assumes "pf \<in> set faces"
    and "bindings s (active_unit s, TEXTURE_CUBE_MAP) = Some t" "textures s t = Some tx"
    and s'_def: "s' = finish_loading (result (Image (fst pf))) (face_element c pf) s"
  shows "bindings s' = bindings s" "active_unit s' = active_unit s"
    and "max_texture_size s' = max_texture_size s"
    and "max_cube_map_texture_size s' = max_cube_map_texture_size s"
    and "textures s' =
           (textures s)(t \<mapsto> tx\<lparr>tex_images :=
              (case face_upload result s pf of
                 None \<Rightarrow> tex_images tx
               | Some kv \<Rightarrow> (tex_images tx)(fst kv \<mapsto> snd kv))\<rparr>)"
    and "error_flag s' =
           (if face_clean result s pf then error_flag s
            else if error_flag s = None then Some INVALID_VALUE else error_flag s)"
proof -
  obtain path face where pf: "pf = (path, face)"
    by (cases pf)
  note row = assms(1)[unfolded pf]
  have same: "(textures s)(t \<mapsto> tx\<lparr>tex_images := tex_images tx\<rparr>) = textures s"
    using assms(3) by (simp add: fun_upd_idem)
  show "bindings s' = bindings s" "active_unit s' = active_unit s"
    and "max_texture_size s' = max_texture_size s"
    and "max_cube_map_texture_size s' = max_cube_map_texture_size s"
    and "textures s' =
           (textures s)(t \<mapsto> tx\<lparr>tex_images :=
              (case face_upload result s pf of
                 None \<Rightarrow> tex_images tx
               | Some kv \<Rightarrow> (tex_images tx)(fst kv \<mapsto> snd kv))\<rparr>)"
    and "error_flag s' =
           (if face_clean result s pf then error_flag s
            else if error_flag s = None then Some INVALID_VALUE else error_flag s)"
    unfolding s'_def pf
    using assms(2,3) same
    by (cases "result (Image path)";
        simp add: finish_loading_simps(1) failed_face_element load_event_face[OF row]
          face_upload_def face_clean_def record_error_def)+
qed

lemma fold_put_map_of:
  assumes key: "\<And>x kv. x \<in> set xs \<Longrightarrow> g x = Some kv \<Longrightarrow> fst kv = k x"
    and "inj_on k (set xs)" "distinct xs"
  shows "fold (\<lambda>x m. case g x of None \<Rightarrow> m | Some kv \<Rightarrow> m(fst kv \<mapsto> snd kv)) xs m =
           m ++ map_of (List.map_filter g xs)"
  using assms
proof (induction xs arbitrary: m)
  case Nil
  show ?case by (simp add: map_filter_simps)
next
  case (Cons x xs)
  let ?F = "\<lambda>x m. case g x of None \<Rightarrow> m | Some kv \<Rightarrow> m(fst kv \<mapsto> snd kv)"
  have IH: "fold ?F xs m' = m' ++ map_of (List.map_filter g xs)" for m'
    using Cons.prems by (intro Cons.IH) auto
  have step: "fold ?F (x # xs) m = fold ?F xs (?F x m)"
    by (rule fold_simps(2))
  show ?case
  proof (cases "g x")
    case None
    then show ?thesis
      unfolding step by (simp add: IH map_filter_simps)
  next
    case (Some kv)
    have fresh: "map_of (List.map_filter g xs) (fst kv) = None"
    proof (rule ccontr)
      assume "map_of (List.map_filter g xs) (fst kv) \<noteq> None"
      then obtain v where "(fst kv, v) \<in> set (List.map_filter g xs)"
        by (auto dest: map_of_SomeD)
      then obtain y where y: "y \<in> set xs" "g y = Some (fst kv, v)"
        by (auto simp add: List.map_filter_def)
      with Cons.prems(1)[of y "(fst kv, v)"] Cons.prems(1)[of x kv] Some
      have "k y = k x" by simp
      with Cons.prems(2,3) y(1) show False
        by (auto simp add: inj_on_def)
    qed
    have "fold ?F (x # xs) m = m(fst kv \<mapsto> snd kv) ++ map_of (List.map_filter g xs)"
      unfolding step by (simp add: Some IH)
    also have "\<dots> = m ++ map_of (List.map_filter g (x # xs))"
      using fresh by (auto simp add: Some map_filter_simps fun_eq_iff map_add_def split: option.split)
    finally show ?thesis .
  qed
qed

lemma faces_upload_keys:
  assumes "pf \<in> set faces" "face_upload result s pf = Some kv"
  shows "fst kv = (snd pf, 0)"
proof -
  obtain path face where "pf = (path, face)"
    by (cases pf)
  with assms(2) show ?thesis
    by (auto simp add: face_upload_def split: load_result.splits if_splits)
qed

lemma faces_keys_distinct: "inj_on (\<lambda>pf. (snd pf, 0::nat)) (set faces)" "distinct faces"
  by (simp_all add: faces_def)

lemma finish_loading_rows:
  assumes "bindings s (active_unit s, TEXTURE_CUBE_MAP) = Some t" "textures s t = Some tx"
    and "set fs \<subseteq> set faces"
  shows "textures (fold (\<lambda>pf. finish_loading (result (Image (fst pf))) (face_element c pf)) fs s) =
           (textures s)(t \<mapsto> tx\<lparr>tex_images :=
              fold (\<lambda>pf m. case face_upload result s pf of
                              None \<Rightarrow> m | Some kv \<Rightarrow> m(fst kv \<mapsto> snd kv)) fs (tex_images tx)\<rparr>)"
    and "error_flag (fold (\<lambda>pf. finish_loading (result (Image (fst pf))) (face_element c pf)) fs s) =
           (if list_all (face_clean result s) fs then error_flag s
            else if error_flag s = None then Some INVALID_VALUE else error_flag s)"
  using assms
proof (induction fs arbitrary: s tx)
  case Nil
  {
    case 1
    then show ?case by (simp add: fun_upd_idem)
  next
    case 2
    show ?case by simp
  }
next
  case (Cons pf fs)
  let ?F = "\<lambda>pf. finish_loading (result (Image (fst pf))) (face_element c pf)"
  let ?G = "\<lambda>s pf m. case face_upload result s pf of
                        None \<Rightarrow> m | Some kv \<Rightarrow> m(fst kv \<mapsto> snd kv)"
  {
    case 1
    then have pf: "pf \<in> set faces" and fs: "set fs \<subseteq> set faces"
      by simp_all
    let ?s = "?F pf s"
    let ?tx = "tx\<lparr>tex_images := ?G s pf (tex_images tx)\<rparr>"
    note row = finish_loading_row[OF pf 1(1,2) refl, of result c]
    have b: "bindings ?s (active_unit ?s, TEXTURE_CUBE_MAP) = Some t"
      using 1(1) by (simp add: row(1,2))
    have x: "textures ?s t = Some ?tx"
      by (simp add: row(5))
    have up: "face_upload result ?s = face_upload result s"
      by (rule face_upload_limits(1)[OF row(3,4)])
    have "fold ?F (pf # fs) s = fold ?F fs ?s"
      by (rule fold_simps(2))
    then have "textures (fold ?F (pf # fs) s) = textures (fold ?F fs ?s)"
      by simp
    also have "\<dots> = (textures ?s)(t \<mapsto> ?tx\<lparr>tex_images := fold (?G ?s) fs (tex_images ?tx)\<rparr>)"
      using b x fs by (rule Cons.IH(1))
    also have "\<dots> = (textures s)(t \<mapsto> tx\<lparr>tex_images := fold (?G s) fs (?G s pf (tex_images tx))\<rparr>)"
      by (simp add: row(5) up)
    also have "fold (?G s) fs (?G s pf (tex_images tx)) = fold (?G s) (pf # fs) (tex_images tx)"
      by (rule fold_simps(2)[symmetric])
    finally show ?case .
  next
    case 2
    then have pf: "pf \<in> set faces" and fs: "set fs \<subseteq> set faces"
      by simp_all
    let ?s = "?F pf s"
    let ?tx = "tx\<lparr>tex_images := ?G s pf (tex_images tx)\<rparr>"
    note row = finish_loading_row[OF pf 2(1,2) refl, of result c]
    have b: "bindings ?s (active_unit ?s, TEXTURE_CUBE_MAP) = Some t"
      using 2(1) by (simp add: row(1,2))
    have x: "textures ?s t = Some ?tx"
      by (simp add: row(5))
    have cl: "face_clean result ?s = face_clean result s"
      by (rule face_upload_limits(2)[OF row(3,4)])
    have "fold ?F (pf # fs) s = fold ?F fs ?s"
      by (rule fold_simps(2))
    then have "error_flag (fold ?F (pf # fs) s) = error_flag (fold ?F fs ?s)"
      by simp
    also have "\<dots> = (if list_all (face_clean result ?s) fs then error_flag ?s
            else if error_flag ?s = None then Some INVALID_VALUE else error_flag ?s)"
      using b x fs by (rule Cons.IH(2))
    also have "\<dots> = (if list_all (face_clean result s) (pf # fs) then error_flag s
            else if error_flag s = None then Some INVALID_VALUE else error_flag s)"
      by (simp add: row(6) cl)
    finally show ?case .
  }
qed

lemma uniform1i_frame:
  "active_unit (uniform1i loc v s) = active_unit s"
  "bindings (uniform1i loc v s) = bindings s"
  "textures (uniform1i loc v s) = textures s"
  "next_texture (uniform1i loc v s) = next_texture s"
  "current_program (uniform1i loc v s) = current_program s"
  "max_texture_size (uniform1i loc v s) = max_texture_size s"
  "max_cube_map_texture_size (uniform1i loc v s) = max_cube_map_texture_size s"
  "image_data (uniform1i loc v s) = image_data s"
  by (simp_all add: uniform1i_def log_call_def record_error_def split: option.split)

lemma after_configureCubeMap:
  "active_unit (snd (snd (configureCubeMap prog s))) = 0"
  "bindings (snd (snd (configureCubeMap prog s))) =
     (bindings s)((0, TEXTURE_CUBE_MAP) \<mapsto> next_texture s)"
  "textures (snd (snd (configureCubeMap prog s))) = (textures s)(next_texture s \<mapsto> texture_cube)"
  "next_texture (snd (snd (configureCubeMap prog s))) = Suc (next_texture s)"
  "current_program (snd (snd (configureCubeMap prog s))) = current_program s"
  "max_texture_size (snd (snd (configureCubeMap prog s))) = max_texture_size s"
  "max_cube_map_texture_size (snd (snd (configureCubeMap prog s))) = max_cube_map_texture_size s"
  "image_data (snd (snd (configureCubeMap prog s))) = image_data s"
  by (simp_all add: configureCubeMap_eq uniform1i_frame)

text \<open>The six events in the order of the table, after \<^verbatim>\<open>configureCubeMap\<close>.\<close>

lemma after_loading:
  fixes prog s0 result
  defines "s1 \<equiv> snd (snd (configureCubeMap prog s0))"
  defines "end_state \<equiv>
     fold (\<lambda>e. finish_loading (result (elem_image e)) e) (cube_images (next_texture s0)) s1"
  shows "textures end_state (next_texture s0) =
           Some (texture_cube\<lparr>tex_images := map_of (List.map_filter (face_upload result s0) faces)\<rparr>)"
    and "error_flag end_state =
           (if list_all (face_clean result s0) faces then error_flag s1
            else if error_flag s1 = None then Some INVALID_VALUE else error_flag s1)"
proof -
  let ?t = "next_texture s0"
  let ?F = "\<lambda>pf. finish_loading (result (Image (fst pf))) (face_element ?t pf)"
  have run: "end_state = fold ?F faces s1"
    by (simp add: end_state_def cube_images_elements fold_map comp_def face_element_def)
  have b: "bindings s1 (active_unit s1, TEXTURE_CUBE_MAP) = Some ?t"
    and x: "textures s1 ?t = Some texture_cube"
    by (simp_all add: s1_def after_configureCubeMap)
  have lim: "max_texture_size s1 = max_texture_size s0"
    "max_cube_map_texture_size s1 = max_cube_map_texture_size s0"
    by (simp_all add: s1_def after_configureCubeMap)
  note same = face_upload_limits[OF lim, of result]
  have sub: "set faces \<subseteq> set faces"
    by simp
  have keys: "fold (\<lambda>pf m. case face_upload result s0 pf of
                              None \<Rightarrow> m | Some kv \<Rightarrow> m(fst kv \<mapsto> snd kv)) faces m =
              m ++ map_of (List.map_filter (face_upload result s0) faces)" for m
    by (rule fold_put_map_of[where k = "\<lambda>pf. (snd pf, 0::nat)"])
       (simp_all add: faces_upload_keys faces_keys_distinct)
  show "textures end_state ?t =
           Some (texture_cube\<lparr>tex_images := map_of (List.map_filter (face_upload result s0) faces)\<rparr>)"
    unfolding run finish_loading_rows(1)[OF b x sub] same keys
    by (simp add: texture_cube_def)
  show "error_flag end_state =
           (if list_all (face_clean result s0) faces then error_flag s1
            else if error_flag s1 = None then Some INVALID_VALUE else error_flag s1)"
    unfolding run finish_loading_rows(2)[OF b x sub] same ..
qed

text \<open>
  C2. Take the six image elements that \<^verbatim>\<open>configureCubeMap\<close> has started loading,
  let each image load with the size \<open>dims\<close> gives it, and let the load events arrive in
  any two orders \<open>order1\<close> and \<open>order2\<close>. Each handler is one upload, of the image of
  its own element to the face that the table gives for that image. Run from the same
  context, the two orders end in the same context (the log of calls apart, which lists
  the same uploads in the order they were made). Run in the context that
  \<^verbatim>\<open>configureCubeMap\<close> returned, either order leaves the cubemap with each face
  whose image the upload accepts holding that image, and the others empty; the error
  flag is untouched when all six are accepted and \<^verbatim>\<open>INVALID_VALUE\<close> otherwise.
\<close>

theorem cubemap_uploads_commute:
  assumes "mset order1 = mset (fst (snd (configureCubeMap prog s0)))"
    and "mset order2 = mset (fst (snd (configureCubeMap prog s0)))"
  shows "(\<forall>e\<in>set order1. \<exists>c. onload e = Some c \<and> cl_image c = elem_image e
            \<and> (src (elem_image e), cl_face c) \<in> set faces
            \<and> (\<forall>d s. load_event d e s =
                     texImage2D (cl_face c) 0 RGB RGB UNSIGNED_BYTE (elem_image e)
                       (s\<lparr>image_data := (image_data s)(elem_image e \<mapsto> d)\<rparr>)))
       \<and> (\<forall>s. (fold (\<lambda>e. load_event (dims (elem_image e)) e) order1 s)\<lparr>calls := []\<rparr> =
               (fold (\<lambda>e. load_event (dims (elem_image e)) e) order2 s)\<lparr>calls := []\<rparr>)
       \<and> textures (fold (\<lambda>e. load_event (dims (elem_image e)) e) order1
                      (snd (snd (configureCubeMap prog s0))))
            (fst (configureCubeMap prog s0)) =
          Some (texture_cube\<lparr>tex_images :=
                  map_of (List.map_filter (face_upload (\<lambda>i. Loaded (dims i)) s0) faces)\<rparr>)
       \<and> error_flag (fold (\<lambda>e. load_event (dims (elem_image e)) e) order1
                        (snd (snd (configureCubeMap prog s0)))) =
          (if list_all (face_clean (\<lambda>i. Loaded (dims i)) s0) faces
           then error_flag (snd (snd (configureCubeMap prog s0)))
           else if error_flag (snd (snd (configureCubeMap prog s0))) = None
                then Some INVALID_VALUE
                else error_flag (snd (snd (configureCubeMap prog s0))))"
proof -
  let ?t = "next_texture s0"
  let ?s1 = "snd (snd (configureCubeMap prog s0))"
  let ?result = "\<lambda>i. Loaded (dims i)"
  let ?L = "\<lambda>e. load_event (dims (elem_image e)) e"
  have L: "(\<lambda>e. finish_loading (?result (elem_image e)) e) = ?L"
    by (simp add: fun_eq_iff finish_loading_simps)
  from assms have m1: "mset order1 = mset (cube_images ?t)"
    and m2: "mset order2 = mset (cube_images ?t)"
    by (simp_all add: images_of_configureCubeMap)
  have own: "\<exists>c. onload e = Some c \<and> cl_image c = elem_image e
            \<and> (src (elem_image e), cl_face c) \<in> set faces
            \<and> (\<forall>d s. load_event d e s =
                     texImage2D (cl_face c) 0 RGB RGB UNSIGNED_BYTE (elem_image e)
                       (s\<lparr>image_data := (image_data s)(elem_image e \<mapsto> d)\<rparr>))"
    if "e \<in> set order1" for e
  proof -
    from that mset_eq_setD[OF m1] have "e \<in> set (cube_images ?t)"
      by simp
    then obtain pf where f: "pf \<in> set faces" and e: "e = face_element ?t pf"
      by (rule cube_images_cases)
    obtain path face where pf: "pf = (path, face)"
      by (cases pf)
    have "onload e = Some (face_closure ?t pf)" and "elem_image e = Image path"
      and "cl_face (face_closure ?t pf) = face" and "cl_image (face_closure ?t pf) = Image path"
      by (simp_all add: e pf face_element_def face_closure_def)
    moreover have "\<forall>d s. load_event d e s =
        texImage2D face 0 RGB RGB UNSIGNED_BYTE (Image path)
          (s\<lparr>image_data := (image_data s)(Image path \<mapsto> d)\<rparr>)"
      by (simp add: e pf face_element_def face_closure_def load_event_def fire_def
            onload_body_def)
    moreover from f have "(src (Image path), face) \<in> set faces"
      unfolding pf by simp
    ultimately show ?thesis
      by simp
  qed
  have same: "(fold ?L order1 s)\<lparr>calls := []\<rparr> = (fold ?L order2 s)\<lparr>calls := []\<rparr>" for s
    using permuted_loading[OF m1 m2, of ?result s] unfolding L .
  have m0: "mset (cube_images ?t) = mset (cube_images ?t)"
    by simp
  have eq: "(fold ?L order1 ?s1)\<lparr>calls := []\<rparr> = (fold ?L (cube_images ?t) ?s1)\<lparr>calls := []\<rparr>"
    using permuted_loading[OF m1 m0, of ?result ?s1] unfolding L .
  have tex: "textures (fold ?L order1 ?s1) = textures (fold ?L (cube_images ?t) ?s1)"
    using arg_cong[OF eq, of textures] by simp
  have err: "error_flag (fold ?L order1 ?s1) = error_flag (fold ?L (cube_images ?t) ?s1)"
    using arg_cong[OF eq, of error_flag] by simp
  note final = after_loading[of ?result s0 prog, unfolded L]
  from own same show ?thesis
    unfolding tex err images_of_configureCubeMap final by blast
qed

theorem cubemap_uploads_commute_witness:
  "mset (rev (cube_images 0)) = mset (fst (snd (configureCubeMap 1 example_context)))
   \<and> mset (cube_images 0) = mset (fst (snd (configureCubeMap 1 example_context)))
   \<and> (fold (\<lambda>e. load_event (square_512 (elem_image e)) e) (rev (cube_images 0)) example_context)
        \<lparr>calls := []\<rparr> =
      (fold (\<lambda>e. load_event (square_512 (elem_image e)) e) (cube_images 0) example_context)
        \<lparr>calls := []\<rparr>
   \<and> textures (fold (\<lambda>e. load_event (square_512 (elem_image e)) e) (rev (cube_images 0))
                  (snd (snd (configureCubeMap 1 example_context)))) 0 =
       Some (texture_cube\<lparr>tex_images :=
               five_faces((TEXTURE_CUBE_MAP_POSITIVE_Y, 0) \<mapsto>
                            (RGB, Image ''./skybox/top.jpg'', 512, 512))\<rparr>)
   \<and> error_flag (fold (\<lambda>e. load_event (square_512 (elem_image e)) e) (rev (cube_images 0))
                    (snd (snd (configureCubeMap 1 example_context)))) = None"
proof -
  have n: "next_texture example_context = 0"
    by (simp add: example_context_def)
  have h1: "mset (rev (cube_images 0)) = mset (fst (snd (configureCubeMap 1 example_context)))"
    by (simp add: images_of_configureCubeMap n)
  have h2: "mset (cube_images 0) = mset (fst (snd (configureCubeMap 1 example_context)))"
    by (simp add: images_of_configureCubeMap n)
  have t: "fst (configureCubeMap 1 example_context) = 0"
    by (simp add: images_of_configureCubeMap n)
  have ok: "size_ok face 0 (512, 512) example_context" for face
    by (simp add: size_ok_def example_context_def)
  have stored: "map_of (List.map_filter (face_upload (\<lambda>i. Loaded (square_512 i)) example_context) faces) =
      five_faces((TEXTURE_CUBE_MAP_POSITIVE_Y, 0) \<mapsto> (RGB, Image ''./skybox/top.jpg'', 512, 512))"
    by (auto simp add: faces_def face_upload_def square_512_def ok map_filter_simps
          five_faces_def fun_eq_iff)
  have clean: "list_all (face_clean (\<lambda>i. Loaded (square_512 i)) example_context) faces"
    by (simp add: faces_def face_clean_def square_512_def ok)
  have e1: "error_flag (snd (snd (configureCubeMap 1 example_context))) = None"
    by (simp add: configureCubeMap_eq uniform1i_def log_call_def example_context_def)
  note c = cubemap_uploads_commute[OF h1 h2, of square_512]
  from c have "(fold (\<lambda>e. load_event (square_512 (elem_image e)) e) (rev (cube_images 0)) example_context)
        \<lparr>calls := []\<rparr> =
      (fold (\<lambda>e. load_event (square_512 (elem_image e)) e) (cube_images 0) example_context)
        \<lparr>calls := []\<rparr>"
    by blast
  moreover from c have "textures (fold (\<lambda>e. load_event (square_512 (elem_image e)) e) (rev (cube_images 0))
                  (snd (snd (configureCubeMap 1 example_context)))) 0 =
       Some (texture_cube\<lparr>tex_images :=
               five_faces((TEXTURE_CUBE_MAP_POSITIVE_Y, 0) \<mapsto>
                            (RGB, Image ''./skybox/top.jpg'', 512, 512))\<rparr>)"
    unfolding t stored by blast
  moreover from c clean e1 have "error_flag (fold (\<lambda>e. load_event (square_512 (elem_image e)) e) (rev (cube_images 0))
                    (snd (snd (configureCubeMap 1 example_context)))) = None"
    by simp
  ultimately show ?thesis
    using h1 h2 by blast
qed

subsection \<open>Images that fail to load\<close>

text \<open>
  C3. No image element of \<^verbatim>\<open>configureCubeMap\<close> has an error handler, so when an
  image fails to load nothing runs: the context is left as it was, with no call made and
  no error set. Whatever the result of each of the six images is, the loading of the
  others goes on: at the end the cubemap holds the images that loaded and that the upload
  accepted, each on its face, while the faces of the images that failed hold nothing; the
  error flag is as \<^verbatim>\<open>configureCubeMap\<close> left it when every image that loaded was
  accepted, so that failed loads alone leave no trace, and is \<^verbatim>\<open>INVALID_VALUE\<close>
  (unless an earlier error is pending) when the upload refused a loaded image.
\<close>

theorem failed_load_is_silent:
  "(\<forall>e\<in>set (fst (snd (configureCubeMap prog s0))).
       onerror e = None \<and> (\<forall>s. finish_loading Failed e s = s))
   \<and> error_flag (fold (\<lambda>e. finish_loading (result (elem_image e)) e)
                  (fst (snd (configureCubeMap prog s0))) (snd (snd (configureCubeMap prog s0)))) =
       (if list_all (face_clean result s0) faces
        then error_flag (snd (snd (configureCubeMap prog s0)))
        else if error_flag (snd (snd (configureCubeMap prog s0))) = None
             then Some INVALID_VALUE
             else error_flag (snd (snd (configureCubeMap prog s0))))
   \<and> textures (fold (\<lambda>e. finish_loading (result (elem_image e)) e)
                  (fst (snd (configureCubeMap prog s0))) (snd (snd (configureCubeMap prog s0))))
        (fst (configureCubeMap prog s0)) =
       Some (texture_cube\<lparr>tex_images :=
               map_of (List.map_filter (face_upload result s0) faces)\<rparr>)"
proof -
  let ?t = "next_texture s0"
  have silent: "onerror e = None \<and> (\<forall>s. finish_loading Failed e s = s)"
    if "e \<in> set (cube_images ?t)" for e
    using that
    by (rule cube_images_cases)
       (simp add: finish_loading_simps error_event_def fire_def face_element_def)
  note final = after_loading[of result s0 prog]
  from silent show ?thesis
    unfolding images_of_configureCubeMap final by blast
qed

theorem failed_load_is_silent_witness:
  "top_image \<in> set (fst (snd (configureCubeMap 1 example_context)))
   \<and> onerror top_image = None
   \<and> finish_loading Failed top_image example_context = example_context
   \<and> textures (fold (\<lambda>e. finish_loading (top_failed (elem_image e)) e)
                  (fst (snd (configureCubeMap 1 example_context)))
                  (snd (snd (configureCubeMap 1 example_context)))) 0 =
       Some (texture_cube\<lparr>tex_images := five_faces\<rparr>)
   \<and> error_flag (fold (\<lambda>e. finish_loading (top_failed (elem_image e)) e)
                  (fst (snd (configureCubeMap 1 example_context)))
                  (snd (snd (configureCubeMap 1 example_context)))) = None
   \<and> textures (fold (\<lambda>e. finish_loading (top_not_square (elem_image e)) e)
                  (fst (snd (configureCubeMap 1 example_context)))
                  (snd (snd (configureCubeMap 1 example_context)))) 0 =
       Some (texture_cube\<lparr>tex_images := five_faces\<rparr>)
   \<and> error_flag (fold (\<lambda>e. finish_loading (top_not_square (elem_image e)) e)
                  (fst (snd (configureCubeMap 1 example_context)))
                  (snd (snd (configureCubeMap 1 example_context)))) = Some INVALID_VALUE"
proof -
  have n: "next_texture example_context = 0"
    by (simp add: example_context_def)
  have t: "fst (configureCubeMap 1 example_context) = 0"
    by (simp add: images_of_configureCubeMap n)
  have mem: "top_image \<in> set (fst (snd (configureCubeMap 1 example_context)))"
    by (simp add: images_of_configureCubeMap n cube_images_def faces_def top_image_def
          face_element_def face_closure_def)
  have ok: "size_ok face 0 (512, 512) example_context" for face
    by (simp add: size_ok_def example_context_def)
  have no: "\<not> size_ok TEXTURE_CUBE_MAP_POSITIVE_Y 0 (512, 256) example_context"
    by (simp add: size_ok_def)
  have e1: "error_flag (snd (snd (configureCubeMap 1 example_context))) = None"
    by (simp add: configureCubeMap_eq uniform1i_def log_call_def example_context_def)
  have stored: "map_of (List.map_filter (face_upload top_failed example_context) faces) = five_faces"
    by (auto simp add: faces_def face_upload_def top_failed_def ok map_filter_simps
          five_faces_def fun_eq_iff)
  have clean: "list_all (face_clean top_failed example_context) faces"
    by (simp add: faces_def face_clean_def top_failed_def ok)
  have stored': "map_of (List.map_filter (face_upload top_not_square example_context) faces) = five_faces"
    by (auto simp add: faces_def face_upload_def top_not_square_def ok no map_filter_simps
          five_faces_def fun_eq_iff)
  have clean': "\<not> list_all (face_clean top_not_square example_context) faces"
    by (simp add: faces_def face_clean_def top_not_square_def ok no)
  note c = failed_load_is_silent[of 1 example_context top_failed]
  note c' = failed_load_is_silent[of 1 example_context top_not_square]
  from c mem have "onerror top_image = None
      \<and> finish_loading Failed top_image example_context = example_context"
    by blast
  moreover from c have "textures (fold (\<lambda>e. finish_loading (top_failed (elem_image e)) e)
                  (fst (snd (configureCubeMap 1 example_context)))
                  (snd (snd (configureCubeMap 1 example_context)))) 0 =
       Some (texture_cube\<lparr>tex_images := five_faces\<rparr>)"
    unfolding t stored by blast
  moreover from c clean e1 have "error_flag (fold (\<lambda>e. finish_loading (top_failed (elem_image e)) e)
                  (fst (snd (configureCubeMap 1 example_context)))
                  (snd (snd (configureCubeMap 1 example_context)))) = None"
    by simp
  moreover from c' have "textures (fold (\<lambda>e. finish_loading (top_not_square (elem_image e)) e)
                  (fst (snd (configureCubeMap 1 example_context)))
                  (snd (snd (configureCubeMap 1 example_context)))) 0 =
       Some (texture_cube\<lparr>tex_images := five_faces\<rparr>)"
    unfolding t stored' by blast
  moreover from c' clean' e1 have "error_flag (fold (\<lambda>e. finish_loading (top_not_square (elem_image e)) e)
                  (fst (snd (configureCubeMap 1 example_context)))
                  (snd (snd (configureCubeMap 1 example_context)))) = Some INVALID_VALUE"
    by simp
  ultimately show ?thesis
    using mem by blast
qed

subsection \<open>What each operation leaves alone\<close>

lemma uniforms_after_configureCubeMap:
  "uniforms (snd (snd (configureCubeMap prog s))) =
     (if current_program s = Some prog \<and> uniforms s (prog, ''cubeSampler'') \<noteq> None
      then (uniforms s)((prog, ''cubeSampler'') \<mapsto> 0) else uniforms s)"
  by (auto simp add: configureCubeMap_eq uniform1i_def log_call_def record_error_def)

lemma error_after_configureCubeMap:
  "error_flag (snd (snd (configureCubeMap prog s))) =
     (if current_program s \<noteq> Some prog \<and> uniforms s (prog, ''cubeSampler'') \<noteq> None
         \<and> error_flag s = None
      then Some INVALID_OPERATION else error_flag s)"
  by (auto simp add: configureCubeMap_eq uniform1i_def log_call_def record_error_def)

lemma calls_after_configureCubeMap:
  "calls (snd (snd (configureCubeMap prog s))) =
     calls s @
       [ActiveTexture TEXTURE0,
        CreateTexture (next_texture s),
        BindTexture TEXTURE_CUBE_MAP (Some (next_texture s)),
        TexParameteri TEXTURE_CUBE_MAP TEXTURE_MAG_FILTER LINEAR,
        TexParameteri TEXTURE_CUBE_MAP TEXTURE_MIN_FILTER LINEAR,
        GetUniformLocation prog ''cubeSampler'',
        Uniform1i (if uniforms s (prog, ''cubeSampler'') = None then None
                   else Some (prog, ''cubeSampler'')) 0]"
  by (simp add: configureCubeMap_eq calls_uniform1i)

lemma after_configureTexture:
  "fst (configureTexture img s) = next_texture s"
  "active_unit (snd (configureTexture img s)) = active_unit s"
  "bindings (snd (configureTexture img s)) = (bindings s)((active_unit s, TEXTURE_2D) := None)"
  "textures (snd (configureTexture img s)) =
     (textures s)(next_texture s \<mapsto>
        (case accepted_size TEXTURE_2D 0 img s of
           None \<Rightarrow> texture_2d_empty
         | Some d \<Rightarrow> texture_2d img d))"
  "next_texture (snd (configureTexture img s)) = Suc (next_texture s)"
  "current_program (snd (configureTexture img s)) = current_program s"
  "uniforms (snd (configureTexture img s)) = uniforms s"
  "error_flag (snd (configureTexture img s)) =
     (case accepted_size TEXTURE_2D 0 img s of
        None \<Rightarrow> if error_flag s = None then Some INVALID_VALUE else error_flag s
      | Some d \<Rightarrow> error_flag s)"
  by (simp_all add: configureTexture_eq)

lemma texImage2D_frame:
  "active_unit (texImage2D tg l ifmt fmt ty img s) = active_unit s"
  "bindings (texImage2D tg l ifmt fmt ty img s) = bindings s"
  "next_texture (texImage2D tg l ifmt fmt ty img s) = next_texture s"
  "current_program (texImage2D tg l ifmt fmt ty img s) = current_program s"
  "uniforms (texImage2D tg l ifmt fmt ty img s) = uniforms s"
  by (simp_all add: texImage2D_def log_call_def record_error_def split: option.split)

lemma load_event_frame:
  "active_unit (load_event d e s) = active_unit s"
  "bindings (load_event d e s) = bindings s"
  "next_texture (load_event d e s) = next_texture s"
  "current_program (load_event d e s) = current_program s"
  "uniforms (load_event d e s) = uniforms s"
  by (simp_all add: load_event_def fire_def onload_body_def texImage2D_frame split: option.split)

lemma texImage2D_parameters:
  assumes "textures s t = Some tx"
  shows "\<exists>tx'. textures (texImage2D tg l ifmt fmt ty img s) t = Some tx'
           \<and> min_filter tx' = min_filter tx \<and> mag_filter tx' = mag_filter tx
           \<and> mipmaps tx' = mipmaps tx"
  using assms
  by (auto simp add: texImage2D_def log_call_def record_error_def split: option.split)

lemma load_event_parameters:
  assumes "textures s t = Some tx"
  shows "\<exists>tx'. textures (load_event d e s) t = Some tx'
           \<and> min_filter tx' = min_filter tx \<and> mag_filter tx' = mag_filter tx
           \<and> mipmaps tx' = mipmaps tx"
proof (cases "onload e")
  case None
  with assms show ?thesis by (simp add: load_event_def fire_def)
next
  case (Some c)
  have "textures (s\<lparr>image_data := (image_data s)(elem_image e \<mapsto> d)\<rparr>) t = Some tx"
    using assms by simp
  from texImage2D_parameters[OF this] Some show ?thesis
    by (simp add: load_event_def fire_def onload_body_def)
qed

lemma run_step_keeps_parameters:
  assumes "textures s t = Some tx" "t < next_texture s"
  shows "\<exists>tx'. textures (run_step st s) t = Some tx'
           \<and> min_filter tx' = min_filter tx \<and> mag_filter tx' = mag_filter tx
           \<and> mipmaps tx' = mipmaps tx"
    and "t < next_texture (run_step st s)"
  using assms
  by (cases st; simp add: load_event_parameters load_event_frame after_configureTexture
        after_configureCubeMap)+

lemma run_steps_keep_parameters:
  assumes "textures s t = Some tx" "t < next_texture s"
  shows "\<exists>tx'. textures (fold run_step steps s) t = Some tx'
           \<and> min_filter tx' = min_filter tx \<and> mag_filter tx' = mag_filter tx
           \<and> mipmaps tx' = mipmaps tx"
  using assms
proof (induction steps arbitrary: s tx)
  case Nil
  then show ?case by simp
next
  case (Cons st steps)
  from run_step_keeps_parameters[OF Cons.prems, of st]
  obtain tx1 where 1: "textures (run_step st s) t = Some tx1"
    and p: "min_filter tx1 = min_filter tx" "mag_filter tx1 = mag_filter tx"
      "mipmaps tx1 = mipmaps tx"
    and lt: "t < next_texture (run_step st s)"
    by blast
  from Cons.IH[OF 1 lt] p show ?case by simp
qed

subsection \<open>The texture unit contract\<close>

text \<open>
  C4. \<^verbatim>\<open>configureCubeMap\<close> first makes unit 0 the active unit, binds the new cubemap
  there and calls \<^verbatim>\<open>uniform1i\<close> with 0 for the uniform \<^verbatim>\<open>cubeSampler\<close> of its
  program. The value is stored when that program is the one in use and declares the
  uniform; when another program is in use the uniform keeps its value and the call
  records \<^verbatim>\<open>INVALID_OPERATION\<close>, and when the program declares no such uniform
  nothing is written. It writes no other uniform; \<^verbatim>\<open>configureTexture\<close> and the load
  handlers write no uniform, do not change the active unit and do not touch a cubemap
  binding. So a context in which the cubemap sampler reads unit 0, the diffuse sampler
  unit 1 and the depth sampler unit 2 stays so under every operation of the file.
\<close>

theorem texture_unit_contract:
  "active_unit (snd (snd (configureCubeMap prog s))) = 0
   \<and> bindings (snd (snd (configureCubeMap prog s))) (0, TEXTURE_CUBE_MAP) =
       Some (fst (configureCubeMap prog s))
   \<and> calls (snd (snd (configureCubeMap prog s))) =
       calls s @
         [ActiveTexture TEXTURE0,
          CreateTexture (fst (configureCubeMap prog s)),
          BindTexture TEXTURE_CUBE_MAP (Some (fst (configureCubeMap prog s))),
          TexParameteri TEXTURE_CUBE_MAP TEXTURE_MAG_FILTER LINEAR,
          TexParameteri TEXTURE_CUBE_MAP TEXTURE_MIN_FILTER LINEAR,
          GetUniformLocation prog ''cubeSampler'',
          Uniform1i (if uniforms s (prog, ''cubeSampler'') = None then None
                     else Some (prog, ''cubeSampler'')) 0]
   \<and> (current_program s = Some prog \<and> uniforms s (prog, ''cubeSampler'') \<noteq> None \<longrightarrow>
        uniforms (snd (snd (configureCubeMap prog s))) (prog, ''cubeSampler'') = Some 0)
   \<and> (current_program s \<noteq> Some prog \<or> uniforms s (prog, ''cubeSampler'') = None \<longrightarrow>
        uniforms (snd (snd (configureCubeMap prog s))) = uniforms s)
   \<and> error_flag (snd (snd (configureCubeMap prog s))) =
       (if current_program s \<noteq> Some prog \<and> uniforms s (prog, ''cubeSampler'') \<noteq> None
           \<and> error_flag s = None
        then Some INVALID_OPERATION else error_flag s)
   \<and> (\<forall>l. l \<noteq> (prog, ''cubeSampler'') \<longrightarrow>
        uniforms (snd (snd (configureCubeMap prog s))) l = uniforms s l)
   \<and> uniforms (snd (configureTexture img s)) = uniforms s
   \<and> uniforms (load_event d e s) = uniforms s
   \<and> active_unit (snd (configureTexture img s)) = active_unit s
   \<and> active_unit (load_event d e s) = active_unit s
   \<and> (\<forall>u. bindings (snd (configureTexture img s)) (u, TEXTURE_CUBE_MAP) =
            bindings s (u, TEXTURE_CUBE_MAP))
   \<and> bindings (load_event d e s) = bindings s
   \<and> (snd cube = ''cubeSampler'' \<and> snd diffuse \<noteq> ''cubeSampler'' \<and> snd depth \<noteq> ''cubeSampler''
        \<and> unit_contract cube diffuse depth s \<longrightarrow>
          unit_contract cube diffuse depth (snd (snd (configureCubeMap prog s)))
        \<and> unit_contract cube diffuse depth (snd (configureTexture img s))
        \<and> unit_contract cube diffuse depth (load_event d e s))"
proof -
  have contract: "unit_contract cube diffuse depth (snd (snd (configureCubeMap prog s)))"
    if "snd cube = ''cubeSampler''" "snd diffuse \<noteq> ''cubeSampler''" "snd depth \<noteq> ''cubeSampler''"
      and "unit_contract cube diffuse depth s"
    using that
    by (cases cube; cases diffuse; cases depth)
       (auto simp add: unit_contract_def uniforms_after_configureCubeMap)
  have others: "unit_contract cube diffuse depth (snd (configureTexture img s))
      \<and> unit_contract cube diffuse depth (load_event d e s)"
    if "unit_contract cube diffuse depth s"
    using that by (simp add: unit_contract_def after_configureTexture load_event_frame)
  have err: "error_flag (snd (snd (configureCubeMap prog s))) =
       (if current_program s \<noteq> Some prog \<and> uniforms s (prog, ''cubeSampler'') \<noteq> None
           \<and> error_flag s = None
        then Some INVALID_OPERATION else error_flag s)"
    by (rule error_after_configureCubeMap)
  have kept: "uniforms (snd (snd (configureCubeMap prog s))) = uniforms s"
    if "current_program s \<noteq> Some prog \<or> uniforms s (prog, ''cubeSampler'') = None"
    using that by (auto simp add: uniforms_after_configureCubeMap)
  have rest: "active_unit (snd (snd (configureCubeMap prog s))) = 0
   \<and> bindings (snd (snd (configureCubeMap prog s))) (0, TEXTURE_CUBE_MAP) =
       Some (fst (configureCubeMap prog s))
   \<and> calls (snd (snd (configureCubeMap prog s))) =
       calls s @
         [ActiveTexture TEXTURE0,
          CreateTexture (fst (configureCubeMap prog s)),
          BindTexture TEXTURE_CUBE_MAP (Some (fst (configureCubeMap prog s))),
          TexParameteri TEXTURE_CUBE_MAP TEXTURE_MAG_FILTER LINEAR,
          TexParameteri TEXTURE_CUBE_MAP TEXTURE_MIN_FILTER LINEAR,
          GetUniformLocation prog ''cubeSampler'',
          Uniform1i (if uniforms s (prog, ''cubeSampler'') = None then None
                     else Some (prog, ''cubeSampler'')) 0]
   \<and> (current_program s = Some prog \<and> uniforms s (prog, ''cubeSampler'') \<noteq> None \<longrightarrow>
        uniforms (snd (snd (configureCubeMap prog s))) (prog, ''cubeSampler'') = Some 0)
   \<and> (\<forall>l. l \<noteq> (prog, ''cubeSampler'') \<longrightarrow>
        uniforms (snd (snd (configureCubeMap prog s))) l = uniforms s l)
   \<and> uniforms (snd (configureTexture img s)) = uniforms s
   \<and> uniforms (load_event d e s) = uniforms s
   \<and> active_unit (snd (configureTexture img s)) = active_unit s
   \<and> active_unit (load_event d e s) = active_unit s
   \<and> (\<forall>u. bindings (snd (configureTexture img s)) (u, TEXTURE_CUBE_MAP) =
            bindings s (u, TEXTURE_CUBE_MAP))
   \<and> bindings (load_event d e s) = bindings s"
    by (simp add: after_configureCubeMap calls_after_configureCubeMap
          uniforms_after_configureCubeMap images_of_configureCubeMap
          after_configureTexture load_event_frame)
  from contract others err kept rest show ?thesis
    by blast
qed

theorem texture_unit_contract_witness:
  "current_program stale_context = Some 1
   \<and> uniforms stale_context (1, ''cubeSampler'') = Some 3
   \<and> uniforms (snd (snd (configureCubeMap 1 stale_context))) (1, ''cubeSampler'') = Some 0
   \<and> active_unit (snd (snd (configureCubeMap 1 stale_context))) = 0
   \<and> bindings (snd (snd (configureCubeMap 1 stale_context))) (0, TEXTURE_CUBE_MAP) = Some 0
   \<and> current_program other_program_context \<noteq> Some 1
   \<and> uniforms (snd (snd (configureCubeMap 1 other_program_context))) =
       uniforms other_program_context
   \<and> unit_contract (1, ''cubeSampler'') (1, ''diffuseSampler'') (1, ''depthSampler'') sampler_context
   \<and> unit_contract (1, ''cubeSampler'') (1, ''diffuseSampler'') (1, ''depthSampler'')
        (snd (snd (configureCubeMap 1 sampler_context)))
   \<and> unit_contract (1, ''cubeSampler'') (1, ''diffuseSampler'') (1, ''depthSampler'')
        (snd (configureTexture (Image ''container.png'') sampler_context))
   \<and> unit_contract (1, ''cubeSampler'') (1, ''diffuseSampler'') (1, ''depthSampler'')
        (load_event (512, 512) top_image sampler_context)"
proof -
  have p: "current_program stale_context = Some 1"
    and u: "uniforms stale_context (1, ''cubeSampler'') = Some 3"
    and n: "next_texture stale_context = 0"
    by (simp_all add: stale_context_def example_context_def)
  have q: "current_program other_program_context \<noteq> Some 1"
    by (simp add: other_program_context_def)
  have c: "unit_contract (1, ''cubeSampler'') (1, ''diffuseSampler'') (1, ''depthSampler'')
             sampler_context"
    by (simp add: unit_contract_def sampler_context_def example_context_def)
  from texture_unit_contract[of 1 stale_context] p u n
  have est: "uniforms (snd (snd (configureCubeMap 1 stale_context))) (1, ''cubeSampler'') = Some 0
      \<and> active_unit (snd (snd (configureCubeMap 1 stale_context))) = 0
      \<and> bindings (snd (snd (configureCubeMap 1 stale_context))) (0, TEXTURE_CUBE_MAP) = Some 0"
    by (simp add: images_of_configureCubeMap)
  from texture_unit_contract[of 1 other_program_context] q
  have kept: "uniforms (snd (snd (configureCubeMap 1 other_program_context))) =
       uniforms other_program_context"
    by blast
  from texture_unit_contract[of 1 sampler_context "Image ''container.png''" "(512, 512)" top_image
         "(1, ''cubeSampler'')" "(1, ''diffuseSampler'')" "(1, ''depthSampler'')"] c
  have "unit_contract (1, ''cubeSampler'') (1, ''diffuseSampler'') (1, ''depthSampler'')
          (snd (snd (configureCubeMap 1 sampler_context)))
      \<and> unit_contract (1, ''cubeSampler'') (1, ''diffuseSampler'') (1, ''depthSampler'')
          (snd (configureTexture (Image ''container.png'') sampler_context))
      \<and> unit_contract (1, ''cubeSampler'') (1, ''diffuseSampler'') (1, ''depthSampler'')
          (load_event (512, 512) top_image sampler_context)"
    by simp
  with p u est q kept c show ?thesis
    by simp
qed

text \<open>
  With program 2 in use and \<^verbatim>\<open>cubeSampler\<close> of program 1 holding 3,
  \<^verbatim>\<open>configureCubeMap\<close> called for program 1 does not set the uniform to 0: it still
  holds 3 on return, and the context has recorded \<^verbatim>\<open>INVALID_OPERATION\<close>.
\<close>

theorem cubeSampler_not_set_for_other_program:
  "uniforms (snd (snd (configureCubeMap 1 other_program_context))) (1, ''cubeSampler'') = Some 3
   \<and> uniforms (snd (snd (configureCubeMap 1 other_program_context))) (1, ''cubeSampler'') \<noteq> Some 0
   \<and> error_flag (snd (snd (configureCubeMap 1 other_program_context))) = Some INVALID_OPERATION
   \<and> \<not> unit_contract (1, ''cubeSampler'') (1, ''diffuseSampler'') (1, ''depthSampler'')
         (snd (snd (configureCubeMap 1 other_program_context)))"
  by (simp add: uniforms_after_configureCubeMap error_after_configureCubeMap unit_contract_def
        other_program_context_def stale_context_def example_context_def)

subsection \<open>Filtering of the cubemap and of 2D textures\<close>

text \<open>
  C9. The cubemap of \<^verbatim>\<open>configureCubeMap\<close> has the filter \<^verbatim>\<open>LINEAR\<close> for
  minification and for magnification and no generated mipmaps, and it keeps them under
  any sequence of load events and further calls of the two functions; neither
  \<^verbatim>\<open>configureCubeMap\<close> nor a load handler calls \<^verbatim>\<open>generateMipmap\<close>. As
  \<^verbatim>\<open>LINEAR\<close> is not a mipmap filter, sampling the cubemap reads no mipmap level. A
  texture of \<^verbatim>\<open>configureTexture\<close> has the minification filter
  \<^verbatim>\<open>LINEAR_MIPMAP_LINEAR\<close>, which is one, and \<^verbatim>\<open>generateMipmap\<close> is called
  for it; it has generated mipmaps when the upload accepted the image, and none when
  the upload refused it.
\<close>

theorem cubemap_plain_linear_filtering:
  "(\<exists>tx. textures (fold run_step steps (snd (snd (configureCubeMap prog s0))))
            (fst (configureCubeMap prog s0)) = Some tx
         \<and> min_filter tx = LINEAR \<and> mag_filter tx = LINEAR \<and> \<not> mipmaps tx
         \<and> \<not> uses_mipmaps (min_filter tx))
   \<and> (\<forall>target. GenerateMipmap target \<notin>
         set (drop (length (calls s0)) (calls (snd (snd (configureCubeMap prog s0))))))
   \<and> (\<forall>target. GenerateMipmap target \<notin> set (drop (length (calls s)) (calls (load_event d e s))))
   \<and> (\<exists>tx. textures (snd (configureTexture img s)) (fst (configureTexture img s)) = Some tx
         \<and> min_filter tx = LINEAR_MIPMAP_LINEAR \<and> mag_filter tx = LINEAR
         \<and> uses_mipmaps (min_filter tx)
         \<and> (\<forall>dims. accepted_size TEXTURE_2D 0 img s = Some dims \<longrightarrow>
               tx = texture_2d img dims \<and> mipmaps tx
             \<and> tex_images tx (TEXTURE_2D, 0) = Some (RGBA, img, dims))
         \<and> (accepted_size TEXTURE_2D 0 img s = None \<longrightarrow>
               tx = texture_2d_empty \<and> \<not> mipmaps tx \<and> tex_images tx (TEXTURE_2D, 0) = None))
   \<and> GenerateMipmap TEXTURE_2D \<in>
       set (drop (length (calls s)) (calls (snd (configureTexture img s))))"
proof -
  let ?s1 = "snd (snd (configureCubeMap prog s0))"
  let ?t = "next_texture s0"
  have x: "textures ?s1 ?t = Some texture_cube" and lt: "?t < next_texture ?s1"
    by (simp_all add: after_configureCubeMap)
  from run_steps_keep_parameters[OF x lt, of steps]
  have cube: "\<exists>tx. textures (fold run_step steps ?s1) (fst (configureCubeMap prog s0)) = Some tx
         \<and> min_filter tx = LINEAR \<and> mag_filter tx = LINEAR \<and> \<not> mipmaps tx
         \<and> \<not> uses_mipmaps (min_filter tx)"
    by (auto simp add: images_of_configureCubeMap texture_cube_def uses_mipmaps_def)
  have ev: "GenerateMipmap target \<notin> set (drop (length (calls s)) (calls (load_event d e s)))"
    for target
    by (simp add: load_event_def fire_def onload_body_def calls_texImage2D split: option.split)
  have own: "GenerateMipmap target \<notin>
         set (drop (length (calls s0)) (calls (snd (snd (configureCubeMap prog s0)))))"
    for target
    by (simp add: calls_after_configureCubeMap)
  have two: "GenerateMipmap TEXTURE_2D \<in>
       set (drop (length (calls s)) (calls (snd (configureTexture img s))))"
    by (simp add: configureTexture_eq)
  have flat: "\<exists>tx. textures (snd (configureTexture img s)) (fst (configureTexture img s)) = Some tx
         \<and> min_filter tx = LINEAR_MIPMAP_LINEAR \<and> mag_filter tx = LINEAR
         \<and> uses_mipmaps (min_filter tx)
         \<and> (\<forall>dims. accepted_size TEXTURE_2D 0 img s = Some dims \<longrightarrow>
               tx = texture_2d img dims \<and> mipmaps tx
             \<and> tex_images tx (TEXTURE_2D, 0) = Some (RGBA, img, dims))
         \<and> (accepted_size TEXTURE_2D 0 img s = None \<longrightarrow>
               tx = texture_2d_empty \<and> \<not> mipmaps tx \<and> tex_images tx (TEXTURE_2D, 0) = None)"
    by (cases "accepted_size TEXTURE_2D 0 img s")
       (simp_all add: after_configureTexture texture_2d_def texture_2d_empty_def
          uses_mipmaps_def)
  from cube own ev flat two show ?thesis
    by blast
qed

theorem cubemap_plain_linear_filtering_witness:
  "accepted_size TEXTURE_2D 0 (Image ''wood.png'') loaded_context = Some (512, 512)
   \<and> textures (snd (configureTexture (Image ''wood.png'') loaded_context))
        (fst (configureTexture (Image ''wood.png'') loaded_context)) =
       Some (texture_2d (Image ''wood.png'') (512, 512))
   \<and> mipmaps (texture_2d (Image ''wood.png'') (512, 512))
   \<and> accepted_size TEXTURE_2D 0 (Image ''wood.png'') example_context = None
   \<and> textures (snd (configureTexture (Image ''wood.png'') example_context))
        (fst (configureTexture (Image ''wood.png'') example_context)) =
       Some texture_2d_empty
   \<and> \<not> mipmaps texture_2d_empty"
proof -
  have a: "accepted_size TEXTURE_2D 0 (Image ''wood.png'') loaded_context = Some (512, 512)"
    by (simp add: accepted_size_def size_ok_def loaded_context_def example_context_def)
  have b: "accepted_size TEXTURE_2D 0 (Image ''wood.png'') example_context = None"
    by (simp add: accepted_size_def example_context_def)
  from cubemap_plain_linear_filtering[where img = "Image ''wood.png''" and s = loaded_context] a
  have "textures (snd (configureTexture (Image ''wood.png'') loaded_context))
        (fst (configureTexture (Image ''wood.png'') loaded_context)) =
       Some (texture_2d (Image ''wood.png'') (512, 512))
     \<and> mipmaps (texture_2d (Image ''wood.png'') (512, 512))"
    by auto
  moreover
  from cubemap_plain_linear_filtering[where img = "Image ''wood.png''" and s = example_context] b
  have "textures (snd (configureTexture (Image ''wood.png'') example_context))
        (fst (configureTexture (Image ''wood.png'') example_context)) =
       Some texture_2d_empty
     \<and> \<not> mipmaps texture_2d_empty"
    by auto
  ultimately show ?thesis
    using a b by blast
qed

text \<open>
  An image of 8192 by 8192 pixels in a context whose limit is 4096: the upload is
  refused with \<^verbatim>\<open>INVALID_VALUE\<close>, so \<^verbatim>\<open>generateMipmap\<close> finds no base level,
  and the texture that \<^verbatim>\<open>configureTexture\<close> returns has the filter
  \<^verbatim>\<open>LINEAR_MIPMAP_LINEAR\<close> but no mipmaps.
\<close>

theorem refused_image_gets_no_mipmaps:
  "image_data oversize_context (Image ''wood.png'') = Some (8192, 8192)
   \<and> max_texture_size oversize_context = 4096
   \<and> textures (snd (configureTexture (Image ''wood.png'') oversize_context))
        (fst (configureTexture (Image ''wood.png'') oversize_context)) = Some texture_2d_empty
   \<and> min_filter texture_2d_empty = LINEAR_MIPMAP_LINEAR
   \<and> \<not> mipmaps texture_2d_empty
   \<and> tex_images texture_2d_empty (TEXTURE_2D, 0) = None
   \<and> error_flag (snd (configureTexture (Image ''wood.png'') oversize_context)) =
       Some INVALID_VALUE"
proof -
  have a: "accepted_size TEXTURE_2D 0 (Image ''wood.png'') oversize_context = None"
    by (simp add: accepted_size_def size_ok_def oversize_context_def example_context_def)
  have e: "error_flag oversize_context = None"
    by (simp add: oversize_context_def example_context_def)
  show ?thesis
    by (simp add: after_configureTexture a e texture_2d_empty_def)
       (simp add: oversize_context_def example_context_def)
qed

subsection \<open>What stays bound\<close>

lemma face_closure_fields:
  "cl_face (face_closure c pf) = snd pf" "cl_image (face_closure c pf) = Image (fst pf)"
  by (simp_all add: face_closure_def split_beta)

lemma face_closure_cube_face:
  assumes "pf \<in> set faces"
  shows "cl_face (face_closure c pf) \<in> set cube_faces"
proof -
  obtain path face where pf: "pf = (path, face)"
    by (cases pf)
  from assms have "face \<in> set cube_faces"
    unfolding pf by (rule faces_are_cube_faces)
  then show ?thesis
    by (simp add: pf face_closure_def)
qed

lemma upload_reaches_bound_texture:
  assumes "pf \<in> set faces"
    and "bindings s (active_unit s, TEXTURE_CUBE_MAP) = Some t" "textures s t = Some tx"
    and "accepted_size (snd pf) 0 (Image (fst pf)) s = Some d"
  shows "textures (onload_body (face_closure c pf) s) =
           (textures s)(t \<mapsto> tx\<lparr>tex_images :=
              (tex_images tx)((snd pf, 0) \<mapsto> (RGB, Image (fst pf), d))\<rparr>)"
    and "error_flag (onload_body (face_closure c pf) s) = error_flag s"
  using assms(2-)
  by (simp_all add: onload_body_face[OF face_closure_cube_face[OF assms(1)]]
        face_closure_fields)

lemma upload_refused:
  assumes "pf \<in> set faces"
    and "bindings s (active_unit s, TEXTURE_CUBE_MAP) = Some t" "textures s t = Some tx"
    and "accepted_size (snd pf) 0 (Image (fst pf)) s = None"
  shows "textures (onload_body (face_closure c pf) s) = textures s"
    and "error_flag (onload_body (face_closure c pf) s) =
           (if error_flag s = None then Some INVALID_VALUE else error_flag s)"
  using assms(2-)
  by (simp_all add: onload_body_face[OF face_closure_cube_face[OF assms(1)]]
        face_closure_fields record_error_def)

lemma upload_misses_unbound_texture:
  assumes "pf \<in> set faces" "bindings s (active_unit s, TEXTURE_CUBE_MAP) \<noteq> Some t"
  shows "textures (onload_body (face_closure c pf) s) t = textures s t"
  using assms(2)
  by (auto simp add: onload_body_face[OF face_closure_cube_face[OF assms(1)]]
        record_error_def split: option.split)

lemma upload_without_binding:
  assumes "pf \<in> set faces" "bindings s (active_unit s, TEXTURE_CUBE_MAP) = None"
  shows "error_flag (onload_body (face_closure c pf) s) =
           (if error_flag s = None then Some INVALID_OPERATION else error_flag s)"
    and "textures (onload_body (face_closure c pf) s) = textures s"
  using assms(2)
  by (simp_all add: onload_body_face[OF face_closure_cube_face[OF assms(1)]] record_error_def)

text \<open>
  C10. \<^verbatim>\<open>configureTexture\<close> ends by binding null: on return the \<^verbatim>\<open>TEXTURE_2D\<close>
  binding of the active unit is cleared and no other binding has changed.
  \<^verbatim>\<open>configureCubeMap\<close> returns with unit 0 active and the new cubemap bound to
  \<^verbatim>\<open>TEXTURE_CUBE_MAP\<close> there, and makes no call that unbinds it. The load handlers
  bind nothing themselves: a handler that runs while the cubemap is the
  \<^verbatim>\<open>TEXTURE_CUBE_MAP\<close> binding of the active unit uploads into it when the upload
  accepts the image, and changes no texture and records \<^verbatim>\<open>INVALID_VALUE\<close> when it
  refuses the image; one that runs while the cubemap is not that binding leaves the
  cubemap as it was, and with nothing bound there the upload is lost with the error
  \<^verbatim>\<open>INVALID_OPERATION\<close>.
\<close>

theorem binding_frame_conditions:
  "bindings (snd (configureTexture img s)) = (bindings s)((active_unit s, TEXTURE_2D) := None)
   \<and> active_unit (snd (configureTexture img s)) = active_unit s
   \<and> BindTexture TEXTURE_2D None = last (calls (snd (configureTexture img s)))
   \<and> bindings (snd (snd (configureCubeMap prog s))) =
       (bindings s)((0, TEXTURE_CUBE_MAP) \<mapsto> fst (configureCubeMap prog s))
   \<and> active_unit (snd (snd (configureCubeMap prog s))) = 0
   \<and> BindTexture TEXTURE_CUBE_MAP None \<notin>
       set (drop (length (calls s)) (calls (snd (snd (configureCubeMap prog s)))))
   \<and> map onload (fst (snd (configureCubeMap prog s))) =
       map (\<lambda>pf. Some (face_closure (fst (configureCubeMap prog s)) pf)) faces
   \<and> (\<forall>pf\<in>set faces.
        bindings (onload_body (face_closure cubeMap pf) s') = bindings s'
      \<and> active_unit (onload_body (face_closure cubeMap pf) s') = active_unit s'
      \<and> (bindings s' (active_unit s', TEXTURE_CUBE_MAP) = Some cubeMap
           \<and> textures s' cubeMap = Some tx
           \<and> accepted_size (snd pf) 0 (Image (fst pf)) s' = Some dims \<longrightarrow>
           textures (onload_body (face_closure cubeMap pf) s') cubeMap =
             Some (tx\<lparr>tex_images :=
                     (tex_images tx)((snd pf, 0) \<mapsto> (RGB, Image (fst pf), dims))\<rparr>)
         \<and> error_flag (onload_body (face_closure cubeMap pf) s') = error_flag s')
      \<and> (bindings s' (active_unit s', TEXTURE_CUBE_MAP) = Some cubeMap
           \<and> textures s' cubeMap = Some tx
           \<and> accepted_size (snd pf) 0 (Image (fst pf)) s' = None \<longrightarrow>
           textures (onload_body (face_closure cubeMap pf) s') = textures s'
         \<and> error_flag (onload_body (face_closure cubeMap pf) s') =
             (if error_flag s' = None then Some INVALID_VALUE else error_flag s'))
      \<and> (bindings s' (active_unit s', TEXTURE_CUBE_MAP) \<noteq> Some cubeMap \<longrightarrow>
           textures (onload_body (face_closure cubeMap pf) s') cubeMap = textures s' cubeMap)
      \<and> (bindings s' (active_unit s', TEXTURE_CUBE_MAP) = None \<longrightarrow>
           textures (onload_body (face_closure cubeMap pf) s') = textures s'
         \<and> error_flag (onload_body (face_closure cubeMap pf) s') =
             (if error_flag s' = None then Some INVALID_OPERATION else error_flag s')))"
proof -
  have handlers: "map onload (fst (snd (configureCubeMap prog s))) =
       map (\<lambda>pf. Some (face_closure (fst (configureCubeMap prog s)) pf)) faces"
    by (simp add: images_of_configureCubeMap cube_images_elements face_element_def comp_def)
  have last2d: "BindTexture TEXTURE_2D None = last (calls (snd (configureTexture img s)))"
    by (simp add: configureTexture_eq)
  have frame: "bindings (onload_body (face_closure cubeMap pf) s') = bindings s'
      \<and> active_unit (onload_body (face_closure cubeMap pf) s') = active_unit s'" for pf
    by (simp add: onload_body_def texImage2D_frame)
  have first: "bindings (snd (configureTexture img s)) = (bindings s)((active_unit s, TEXTURE_2D) := None)
   \<and> active_unit (snd (configureTexture img s)) = active_unit s
   \<and> bindings (snd (snd (configureCubeMap prog s))) =
       (bindings s)((0, TEXTURE_CUBE_MAP) \<mapsto> fst (configureCubeMap prog s))
   \<and> active_unit (snd (snd (configureCubeMap prog s))) = 0
   \<and> BindTexture TEXTURE_CUBE_MAP None \<notin>
       set (drop (length (calls s)) (calls (snd (snd (configureCubeMap prog s)))))"
    by (simp add: after_configureTexture after_configureCubeMap images_of_configureCubeMap
          calls_after_configureCubeMap)
  have hit: "textures (onload_body (face_closure cubeMap pf) s') cubeMap =
             Some (tx\<lparr>tex_images :=
                     (tex_images tx)((snd pf, 0) \<mapsto> (RGB, Image (fst pf), dims))\<rparr>)
         \<and> error_flag (onload_body (face_closure cubeMap pf) s') = error_flag s'"
    if "pf \<in> set faces" "bindings s' (active_unit s', TEXTURE_CUBE_MAP) = Some cubeMap"
      "textures s' cubeMap = Some tx" "accepted_size (snd pf) 0 (Image (fst pf)) s' = Some dims"
    for pf
    using upload_reaches_bound_texture[OF that, of cubeMap] by simp
  have refused: "textures (onload_body (face_closure cubeMap pf) s') = textures s'
         \<and> error_flag (onload_body (face_closure cubeMap pf) s') =
             (if error_flag s' = None then Some INVALID_VALUE else error_flag s')"
    if "pf \<in> set faces" "bindings s' (active_unit s', TEXTURE_CUBE_MAP) = Some cubeMap"
      "textures s' cubeMap = Some tx" "accepted_size (snd pf) 0 (Image (fst pf)) s' = None"
    for pf
    using upload_refused[OF that, of cubeMap] by simp
  have miss: "textures (onload_body (face_closure cubeMap pf) s') cubeMap = textures s' cubeMap"
    if "pf \<in> set faces" "bindings s' (active_unit s', TEXTURE_CUBE_MAP) \<noteq> Some cubeMap"
    for pf
    using that by (rule upload_misses_unbound_texture)
  have lost: "textures (onload_body (face_closure cubeMap pf) s') = textures s'
         \<and> error_flag (onload_body (face_closure cubeMap pf) s') =
             (if error_flag s' = None then Some INVALID_OPERATION else error_flag s')"
    if "pf \<in> set faces" "bindings s' (active_unit s', TEXTURE_CUBE_MAP) = None"
    for pf
    using upload_without_binding[OF that, of cubeMap] by simp
  from handlers last2d frame first hit refused miss lost show ?thesis
    by blast
qed

theorem binding_frame_conditions_witness:
  "top_row \<in> set faces
   \<and> bindings (snd (snd (configureCubeMap 1 loaded_context)))
        (active_unit (snd (snd (configureCubeMap 1 loaded_context))), TEXTURE_CUBE_MAP) = Some 0
   \<and> textures (snd (snd (configureCubeMap 1 loaded_context))) 0 = Some texture_cube
   \<and> accepted_size (snd top_row) 0 (Image (fst top_row))
        (snd (snd (configureCubeMap 1 loaded_context))) = Some (512, 512)
   \<and> textures (onload_body (face_closure 0 top_row) (snd (snd (configureCubeMap 1 loaded_context)))) 0 =
       Some (texture_cube\<lparr>tex_images :=
               [(TEXTURE_CUBE_MAP_POSITIVE_Y, 0) \<mapsto> (RGB, Image ''./skybox/top.jpg'', 512, 512)]\<rparr>)
   \<and> accepted_size (snd top_row) 0 (Image (fst top_row))
        (snd (snd (configureCubeMap 1 example_context))) = None
   \<and> textures (onload_body (face_closure 0 top_row) (snd (snd (configureCubeMap 1 example_context)))) 0 =
       Some texture_cube
   \<and> error_flag (onload_body (face_closure 0 top_row) (snd (snd (configureCubeMap 1 example_context)))) =
       Some INVALID_VALUE
   \<and> bindings (activeTexture TEXTURE1 (snd (snd (configureCubeMap 1 loaded_context))))
        (active_unit (activeTexture TEXTURE1 (snd (snd (configureCubeMap 1 loaded_context)))),
         TEXTURE_CUBE_MAP) = None
   \<and> textures (onload_body (face_closure 0 top_row)
        (activeTexture TEXTURE1 (snd (snd (configureCubeMap 1 loaded_context))))) 0 =
       Some texture_cube
   \<and> error_flag (onload_body (face_closure 0 top_row)
        (activeTexture TEXTURE1 (snd (snd (configureCubeMap 1 loaded_context))))) =
       Some INVALID_OPERATION"
proof -
  let ?s0 = "snd (snd (configureCubeMap 1 example_context))"
  let ?s1 = "snd (snd (configureCubeMap 1 loaded_context))"
  let ?s2 = "activeTexture TEXTURE1 ?s1"
  have n: "next_texture example_context = 0" "next_texture loaded_context = 0"
    by (simp_all add: loaded_context_def example_context_def)
  have row: "top_row \<in> set faces"
    by (simp add: top_row_def faces_def)
  have b0: "bindings ?s0 (active_unit ?s0, TEXTURE_CUBE_MAP) = Some 0"
    and x0: "textures ?s0 0 = Some texture_cube"
    and b1: "bindings ?s1 (active_unit ?s1, TEXTURE_CUBE_MAP) = Some 0"
    and x1: "textures ?s1 0 = Some texture_cube"
    by (simp_all add: after_configureCubeMap n)
  have a1: "accepted_size (snd top_row) 0 (Image (fst top_row)) ?s1 = Some (512, 512)"
    by (simp add: accepted_size_def size_ok_def after_configureCubeMap top_row_def
          loaded_context_def example_context_def)
  have a0: "accepted_size (snd top_row) 0 (Image (fst top_row)) ?s0 = None"
    by (simp add: accepted_size_def after_configureCubeMap example_context_def)
  have s2: "active_unit ?s2 = 1" "bindings ?s2 = bindings ?s1" "textures ?s2 = textures ?s1"
      "error_flag ?s2 = error_flag ?s1"
    by (simp_all add: activeTexture_def unit_of_def log_call_def)
  have bx: "bindings loaded_context = (\<lambda>_. None)"
    by (simp add: loaded_context_def example_context_def)
  have b2: "bindings ?s2 (active_unit ?s2, TEXTURE_CUBE_MAP) = None"
    unfolding s2 by (simp add: after_configureCubeMap bx)
  have e0: "error_flag ?s0 = None"
    by (simp add: error_after_configureCubeMap example_context_def)
  have e1: "error_flag ?s1 = None"
    by (simp add: error_after_configureCubeMap loaded_context_def example_context_def)
  from binding_frame_conditions[where cubeMap = 0 and s' = ?s1 and tx = texture_cube
         and dims = "(512, 512)"] row
  have "bindings ?s1 (active_unit ?s1, TEXTURE_CUBE_MAP) = Some 0
          \<and> textures ?s1 0 = Some texture_cube
          \<and> accepted_size (snd top_row) 0 (Image (fst top_row)) ?s1 = Some (512, 512) \<longrightarrow>
          textures (onload_body (face_closure 0 top_row) ?s1) 0 =
            Some (texture_cube\<lparr>tex_images :=
              (tex_images texture_cube)((snd top_row, 0) \<mapsto>
                 (RGB, Image (fst top_row), 512, 512))\<rparr>)"
    by blast
  with b1 x1 a1 have hit: "textures (onload_body (face_closure 0 top_row) ?s1) 0 =
       Some (texture_cube\<lparr>tex_images :=
               [(TEXTURE_CUBE_MAP_POSITIVE_Y, 0) \<mapsto> (RGB, Image ''./skybox/top.jpg'', 512, 512)]\<rparr>)"
    by (simp add: top_row_def texture_cube_def)
  from binding_frame_conditions[where cubeMap = 0 and s' = ?s0 and tx = texture_cube] row
  have "bindings ?s0 (active_unit ?s0, TEXTURE_CUBE_MAP) = Some 0
          \<and> textures ?s0 0 = Some texture_cube
          \<and> accepted_size (snd top_row) 0 (Image (fst top_row)) ?s0 = None \<longrightarrow>
          textures (onload_body (face_closure 0 top_row) ?s0) = textures ?s0
        \<and> error_flag (onload_body (face_closure 0 top_row) ?s0) =
            (if error_flag ?s0 = None then Some INVALID_VALUE else error_flag ?s0)"
    by blast
  with b0 x0 a0 e0 have refused: "textures (onload_body (face_closure 0 top_row) ?s0) 0 = Some texture_cube
      \<and> error_flag (onload_body (face_closure 0 top_row) ?s0) = Some INVALID_VALUE"
    by simp
  from binding_frame_conditions[where cubeMap = 0 and s' = ?s2 and tx = texture_cube] row
  have "bindings ?s2 (active_unit ?s2, TEXTURE_CUBE_MAP) = None \<longrightarrow>
          textures (onload_body (face_closure 0 top_row) ?s2) = textures ?s2
        \<and> error_flag (onload_body (face_closure 0 top_row) ?s2) =
            (if error_flag ?s2 = None then Some INVALID_OPERATION else error_flag ?s2)"
    by blast
  with b2 s2 x1 e1 have miss: "textures (onload_body (face_closure 0 top_row) ?s2) 0 = Some texture_cube
      \<and> error_flag (onload_body (face_closure 0 top_row) ?s2) = Some INVALID_OPERATION"
    by simp
  from row b1 x1 a1 hit a0 refused b2 miss show ?thesis
    by blast
qed

subsection \<open>Reset\<close>

text \<open>
  C7. In every state that the parameters can reach by key presses, the reset action
  gives every mutable parameter (the spherical coordinates of the light and of the
  camera, the field of view and the light type) exactly its initial configuration value.
\<close>

theorem reset_restores_initial_values:
  "handle_action c Reset (reached c keys) = initial c
   \<and> lightRadius (handle_action c Reset (reached c keys)) = lightRadius (initial c)
   \<and> lightTheta (handle_action c Reset (reached c keys)) = lightTheta (initial c)
   \<and> lightPhi (handle_action c Reset (reached c keys)) = lightPhi (initial c)
   \<and> lightType (handle_action c Reset (reached c keys)) = lightType (initial c)
   \<and> eyeRadius (handle_action c Reset (reached c keys)) = eyeRadius (initial c)
   \<and> eyeTheta (handle_action c Reset (reached c keys)) = eyeTheta (initial c)
   \<and> eyePhi (handle_action c Reset (reached c keys)) = eyePhi (initial c)
   \<and> eyeFov (handle_action c Reset (reached c keys)) = eyeFov (initial c)
   \<and> reached c (keys @ [Reset]) = initial c"
  by (simp add: initParameters_def reached_def)

subsection \<open>One light-space matrix per frame\<close>

lemma render_frame_matrices:
  "shadow_matrix (render_frame gpu c keys r) = lookup_matrix (render_frame gpu c keys r)"
  "shadow_matrix (render_frame gpu c keys r) =
     light_space gpu (fold (handle_action c) keys (scene r))"
  "depthAttachment (next_state (render_frame gpu c keys r)) =
     draw_depth gpu (lookup_matrix (render_frame gpu c keys r))"
  by (simp_all add: render_frame_def shadow_pass_def forward_pass_def Let_def)

text \<open>
  C6. In every frame of every run, the light-space matrix that the Shadow Pass drew the
  depth attachment with is the same value as the one that the shadow lookup of the
  Forward Pass of that frame is given, and the depth attachment that the Forward Pass
  samples is the one drawn with it.
\<close>

theorem light_space_matrix_shared:
  "list_all (\<lambda>f. shadow_matrix f = lookup_matrix f
               \<and> depthAttachment (next_state f) = draw_depth gpu (lookup_matrix f))
     (render_frames gpu c presses r)"
  by (induction presses arbitrary: r) (simp_all add: render_frame_matrices)

subsection \<open>Fragments outside the light's frustum\<close>

text \<open>
  C8. A fragment whose world position, projected by the light-space matrix, divided by
  its last component and remapped to texture space, lies outside the unit cube has no
  shadow: the shadow computation gives 0, and the colour of the fragment is its ambient
  term plus its full diffuse and specular terms, clamped.
\<close>

theorem outside_light_frustum_unshadowed:
  assumes "projected m p = Some q" and "\<not> in_unit_cube q"
  shows "shadowCalculation m depthMap bias p = Some 0
       \<and> fragment_colour m depthMap bias (ar, ag, ab) (dr, dg, db) (sr, sg, sb) p =
           Some (clamp01 (ar + (dr + sr)), clamp01 (ag + (dg + sg)), clamp01 (ab + (db + sb)))"
proof -
  obtain u v d where q: "q = (u, v, d)"
    by (cases q)
  with assms have "shadowCalculation m depthMap bias p = Some 0"
    by (simp add: shadowCalculation_def)
  then show ?thesis
    by (simp add: fragment_colour_def combine_def)
qed

theorem outside_light_frustum_unshadowed_witness:
  "projected identity4 (2, 0, 0) = Some (1.5, 0.5, 0.5)
   \<and> \<not> in_unit_cube (1.5, 0.5, 0.5)
   \<and> shadowCalculation identity4 (\<lambda>_. 0) 0.005 (2, 0, 0) = Some 0
   \<and> fragment_colour identity4 (\<lambda>_. 0) 0.005 (0.1, 0.1, 0.1) (0.5, 0.25, 0) (0.5, 0.5, 0.5)
        (2, 0, 0) = Some (1, 0.85, 0.6)"
proof -
  have 1: "projected identity4 (2, 0, 0) = Some (1.5, 0.5, 0.5)"
    by (simp add: projected_def light_clip_def mat_vec_def dot4_def identity4_def
          perspective_divide_def to_texture_space_def)
  have 2: "\<not> in_unit_cube (1.5, 0.5, 0.5)"
    by (simp add: in_unit_cube_def)
  from outside_light_frustum_unshadowed[OF 1 2, where depthMap = "\<lambda>_. 0" and bias = "0.005"
      and ar = "0.1" and ag = "0.1" and ab = "0.1" and dr = "0.5" and dg = "0.25" and db = 0
      and sr = "0.5" and sg = "0.5" and sb = "0.5"]
  have "shadowCalculation identity4 (\<lambda>_. 0) 0.005 (2, 0, 0) = Some 0
      \<and> fragment_colour identity4 (\<lambda>_. 0) 0.005 (0.1, 0.1, 0.1) (0.5, 0.25, 0) (0.5, 0.5, 0.5)
          (2, 0, 0) = Some (1, 0.85, 0.6)"
    by (simp add: clamp01_def)
  with 1 2 show ?thesis
    by simp
qed

end
